theory Spec2Isabelle
  imports Main "HOL-Library.Word"
begin

unbundle bit_operations_syntax

section \<open>Data model of the BioDesign metadata library\<close>

text \<open>
  The embedding follows \<^verbatim>\<open>biodesign-library/python/BioDesignMetadataLibrary.py\<close>,
  \<^verbatim>\<open>provider-backend/LatticeSynthProviderTool.py\<close>, \<^verbatim>\<open>provider-backend/provider-server.py\<close>
  and \<^verbatim>\<open>biodesign-tool/operations/CreateOperation.py\<close>.

  Python strings are modelled as \<^typ>\<open>string\<close> (lists of 8-bit code points), byte strings as
  lists of 8-bit words. Exceptions are values of the type \<open>error\<close>; a function that may raise
  returns \<open>error + 'a\<close> with \<open>Inl\<close> for the raised exception.
\<close>

type_synonym bytes = "8 word list"

datatype error =
    ValueError
  | JSONDecodeError
  | UnicodeDecodeError
  | BinasciiError
  | TypeError
  | FileNotFoundError

text \<open>
  Python's exception hierarchy, as far as it is needed: \<^verbatim>\<open>json.JSONDecodeError\<close>,
  \<^verbatim>\<open>UnicodeDecodeError\<close> and \<^verbatim>\<open>binascii.Error\<close> are subclasses of \<^verbatim>\<open>ValueError\<close>;
  \<^verbatim>\<open>FileNotFoundError\<close> is a subclass of \<^verbatim>\<open>OSError\<close> and \<^verbatim>\<open>TypeError\<close> stands alone.
  \<open>is_ValueError e\<close> is what \<^verbatim>\<open>except ValueError\<close> catches.
\<close>

fun is_ValueError :: "error \<Rightarrow> bool" where
  "is_ValueError ValueError = True"
| "is_ValueError JSONDecodeError = True"
| "is_ValueError UnicodeDecodeError = True"
| "is_ValueError BinasciiError = True"
| "is_ValueError TypeError = False"
| "is_ValueError FileNotFoundError = False"

text \<open>The dataclass \<^verbatim>\<open>BioDesignOperation\<close> (lines 34-50).\<close>

record BioDesignOperation =
  operationCode :: string
  operationDetails :: "(string \<times> string) list"
  change :: string
  timestamp :: string
  tool :: string

text \<open>The dataclass \<^verbatim>\<open>BioDesignMetadata\<close> (lines 52-74).\<close>

record BioDesignMetadata =
  id :: string
  parentMetadataId :: "string option"
  designName :: "string option"
  designChecksum :: string
  author :: string
  description :: string
  lastUpdated :: string
  changelog :: "BioDesignOperation list"

text \<open>
  The parts of the Python standard library that the code calls and that are not part of this
  repository are parameters of the model: \<^verbatim>\<open>str.encode\<close> / \<^verbatim>\<open>bytes.decode\<close> (UTF-8),
  \<^verbatim>\<open>hashlib.sha256(...).hexdigest()\<close>, \<^verbatim>\<open>json.dumps(asdict(m))\<close> with its inverse
  \<^verbatim>\<open>BioDesignMetadata(**json.loads(s))\<close>, and \<^verbatim>\<open>base64.b64encode\<close> / \<^verbatim>\<open>b64decode\<close>.
\<close>

record stdlib =
  str_encode :: "string \<Rightarrow> bytes"
  bytes_decode :: "bytes \<Rightarrow> error + string"
  sha256_hexdigest :: "bytes \<Rightarrow> string"
  json_dumps :: "BioDesignMetadata \<Rightarrow> string"
  json_loads :: "string \<Rightarrow> error + BioDesignMetadata"
  b64encode :: "bytes \<Rightarrow> string"
  b64decode :: "string \<Rightarrow> error + bytes"

text \<open>The file system: a map from paths to the text of the file stored there.\<close>

type_synonym fs = "string \<rightharpoonup> string"

section \<open>Checksums\<close>

text \<open>
  \<^verbatim>\<open>str.lower()\<close> on 8-bit code points: the ASCII capitals \<open>A\<close>..\<open>Z\<close> and the Latin-1
  capitals \<open>0xC0\<close>..\<open>0xDE\<close> (without the multiplication sign \<open>0xD7\<close>) move up by 32.
\<close>

definition lower_char :: "char \<Rightarrow> char" where
  "lower_char c =
     (let n = (of_char c :: nat) in
      if 65 \<le> n \<and> n \<le> 90 then char_of (n + 32)
      else if 192 \<le> n \<and> n \<le> 222 \<and> n \<noteq> 215 then char_of (n + 32)
      else c)"

definition lower :: "string \<Rightarrow> string" where
  "lower s = map lower_char s"

text \<open>\<^verbatim>\<open>calculate_checksum\<close> (lines 157-175).\<close>

definition calculate_checksum :: "stdlib \<Rightarrow> string \<Rightarrow> string" where
  "calculate_checksum L input =
     (let input = lower input
      in sha256_hexdigest L (str_encode L input))"

section \<open>Creating and updating metadata records\<close>

text \<open>
  \<^verbatim>\<open>create_metadata\<close> (lines 86-118). The fresh identifier \<^verbatim>\<open>str(uuid.uuid4())\<close> and the
  formatted clock reading \<^verbatim>\<open>datetime.now().strftime(...)\<close> are arguments \<open>uuid\<close> and \<open>now\<close>.
  The file is opened with mode \<^verbatim>\<open>"w"\<close>, so an existing file is overwritten. The function
  returns the new file system and the record.
\<close>

definition metadata_file_of :: "string \<Rightarrow> string" where
  "metadata_file_of design_name = ''library/metadata_'' @ design_name @ ''.json''"

definition create_metadata ::
  "stdlib \<Rightarrow> string \<Rightarrow> string \<Rightarrow> fs \<Rightarrow> string option \<Rightarrow> string \<Rightarrow> string \<Rightarrow> string \<Rightarrow> string
   \<Rightarrow> fs \<times> BioDesignMetadata" where
  "create_metadata L uuid now files parent_metadata_id design_name author' description' design =
     (let design_checksum = calculate_checksum L design;
          metadata = \<lparr> id = uuid,
                       parentMetadataId = parent_metadata_id,
                       designName = Some design_name,
                       designChecksum = design_checksum,
                       author = author',
                       description = description',
                       lastUpdated = now,
                       changelog = [] \<rparr>;
          json_string = json_dumps L metadata
      in (files(metadata_file_of design_name \<mapsto> json_string), metadata))"

text \<open>
  \<^verbatim>\<open>update_metadata_with_operation\<close> (lines 120-154). Opening a path that does not exist
  raises \<^verbatim>\<open>FileNotFoundError\<close>; a file that does not hold a metadata record makes
  \<^verbatim>\<open>json.load\<close> or the dataclass constructor raise.
\<close>

definition update_metadata_with_operation ::
  "stdlib \<Rightarrow> string \<Rightarrow> fs \<Rightarrow> string \<Rightarrow> string \<Rightarrow> string \<Rightarrow> (string \<times> string) list \<Rightarrow> string
   \<Rightarrow> error + (fs \<times> BioDesignMetadata)" where
  "update_metadata_with_operation L now files metadata_path design operation_code
       operation_details change' =
     (case files metadata_path of
        None \<Rightarrow> Inl FileNotFoundError
      | Some text \<Rightarrow>
          (case json_loads L text of
             Inl e \<Rightarrow> Inl e
           | Inr metadata \<Rightarrow>
               (let metadata = metadata\<lparr>lastUpdated := now\<rparr>;
                    metadata = metadata\<lparr>designChecksum := calculate_checksum L design\<rparr>;
                    operation = \<lparr> operationCode = operation_code,
                                  operationDetails = operation_details,
                                  change = change',
                                  timestamp = lastUpdated metadata,
                                  tool = ''BioDesign tool'' \<rparr>;
                    metadata = metadata\<lparr>changelog := changelog metadata @ [operation]\<rparr>;
                    json_string = json_dumps L metadata
                in Inr (files(metadata_path \<mapsto> json_string), metadata))))"

text \<open>
  \<^verbatim>\<open>CreateOperation.validate_and_set_args\<close> (CreateOperation.py, lines 41-67). The keyword
  arguments are a dictionary; the operation object is returned with its four attributes set.
  \<^verbatim>\<open>not file_name\<close> holds for a missing key and for the empty string.
\<close>

record CreateOperation =
  file_name :: "string option"
  sequence :: "string option"
  source :: "string option"
  metadata_parent_id :: "string option"

definition falsy :: "string option \<Rightarrow> bool" where
  "falsy v = (case v of None \<Rightarrow> True | Some s \<Rightarrow> s = [])"

definition args_get_default :: "(string \<rightharpoonup> string) \<Rightarrow> string \<Rightarrow> string \<Rightarrow> string" where
  "args_get_default args k d = (case args k of None \<Rightarrow> d | Some v \<Rightarrow> v)"

definition validate_and_set_args ::
  "fs \<Rightarrow> CreateOperation \<Rightarrow> (string \<rightharpoonup> string) \<Rightarrow> error + CreateOperation" where
  "validate_and_set_args files self args =
     (let file_name' = args ''file_name'';
          sequence' = args ''sequence''
      in if falsy file_name' \<or> falsy sequence' then Inl ValueError
         else
           (let self = self\<lparr>file_name := file_name'\<rparr>;
                self = self\<lparr>sequence := sequence'\<rparr>
            in if files (''library/'' @ the (file_name self) @ ''.gb'') \<noteq> None
               then Inl ValueError
               else
                 (let self = self\<lparr>source := Some (args_get_default args ''source'' ''command_line'')\<rparr>;
                      self = self\<lparr>metadata_parent_id :=
                                     Some (args_get_default args ''metadata_parent_id'' [])\<rparr>
                  in Inr self)))"

section \<open>Differences and revisions\<close>

text \<open>
  The package \<^verbatim>\<open>diff_match_patch\<close> is not part of this repository. Its four entry points
  that the code calls are parameters; \<open>'p\<close> is the type of its patch objects.
  \<^verbatim>\<open>patch_fromText\<close> raises \<^verbatim>\<open>ValueError\<close> on malformed text; \<^verbatim>\<open>patch_apply\<close> never raises
  and returns the new text with one success flag per patch.
\<close>

record 'p dmp =
  patch_make :: "string \<Rightarrow> string \<Rightarrow> 'p list"
  patch_toText :: "'p list \<Rightarrow> string"
  patch_fromText :: "string \<Rightarrow> error + 'p list"
  patch_apply :: "'p list \<Rightarrow> string \<Rightarrow> string \<times> bool list"

text \<open>\<^verbatim>\<open>compute_difference\<close> (lines 177-195): the patch is made from the new string to the
  original one.\<close>

definition compute_difference :: "'p dmp \<Rightarrow> string \<Rightarrow> string \<Rightarrow> string" where
  "compute_difference D original_string new_string =
     (let patches = patch_make D new_string original_string;
          diff = patch_toText D patches
      in diff)"

text \<open>
  A revision is the dictionary \<^verbatim>\<open>{"revision": ..., "design": ..., **asdict(op)}\<close>: the fields
  of the operation with two more.
\<close>

record Revision = BioDesignOperation +
  revision :: int
  design :: string

definition make_revision :: "int \<Rightarrow> string \<Rightarrow> BioDesignOperation \<Rightarrow> Revision" where
  "make_revision current_revision last_design op =
     \<lparr> operationCode = operationCode op,
       operationDetails = operationDetails op,
       change = change op,
       timestamp = timestamp op,
       tool = tool op,
       revision = current_revision,
       design = last_design \<rparr>"

text \<open>
  Lines 221-223 of \<^verbatim>\<open>compute_revisions\<close>: a non-empty change is parsed and applied to the
  design, and the success flags are dropped; an empty change leaves the design as it is.
\<close>

definition apply_change :: "'p dmp \<Rightarrow> string \<Rightarrow> string \<Rightarrow> error + string" where
  "apply_change D chg last_design =
     (if chg \<noteq> [] then
        (case patch_fromText D chg of
           Inl e \<Rightarrow> Inl e
         | Inr patches \<Rightarrow>
             (let (last_design, result) = patch_apply D patches last_design
              in Inr last_design))
      else Inr last_design)"

text \<open>
  An entry of the changelog as \<^verbatim>\<open>compute_revisions\<close> receives it: a dictionary read from JSON.
  \<open>get_operationCode\<close> is \<^verbatim>\<open>operation.get("operationCode")\<close>, the value under that key or
  \<open>None\<close> when the dictionary lacks the key, and so on for the five keys that
  \<^verbatim>\<open>BioDesignOperation\<close> names; \<open>other_keys\<close> are the keys of the dictionary besides these five.
\<close>

record OperationDict =
  get_operationCode :: "string option"
  get_operationDetails :: "(string \<times> string) list option"
  get_change :: "string option"
  get_timestamp :: "string option"
  get_tool :: "string option"
  other_keys :: "string list"

text \<open>
  \<^verbatim>\<open>BioDesignOperation(**operation)\<close> (line 219), the constructor that \<^verbatim>\<open>@dataclass\<close>
  generates: a key that is not a field is an unexpected keyword argument and a field without
  a key is a missing argument; both raise \<^verbatim>\<open>TypeError\<close>.
\<close>

definition BioDesignOperation_init :: "OperationDict \<Rightarrow> error + BioDesignOperation" where
  "BioDesignOperation_init operation =
     (if other_keys operation \<noteq> [] then Inl TypeError
      else
        (case (get_operationCode operation, get_operationDetails operation,
               get_change operation, get_timestamp operation, get_tool operation) of
           (Some code, Some details, Some chg, Some stamp, Some tool_name) \<Rightarrow>
             Inr \<lparr> operationCode = code, operationDetails = details, change = chg,
                   timestamp = stamp, tool = tool_name \<rparr>
         | _ \<Rightarrow> Inl TypeError))"

text \<open>
  \<^verbatim>\<open>asdict\<close> on an operation: the dictionary with exactly the five keys, which is what
  \<open>update_metadata_with_operation\<close> writes for every entry of the changelog.
\<close>

definition asdict_operation :: "BioDesignOperation \<Rightarrow> OperationDict" where
  "asdict_operation op =
     \<lparr> get_operationCode = Some (operationCode op),
       get_operationDetails = Some (operationDetails op),
       get_change = Some (change op),
       get_timestamp = Some (timestamp op),
       get_tool = Some (tool op),
       other_keys = [] \<rparr>"

text \<open>
  The loop of \<^verbatim>\<open>compute_revisions\<close> (lines 218-224) over the reversed changelog, with the
  loop variables \<^verbatim>\<open>current_revision\<close>, \<^verbatim>\<open>last_design\<close> and \<^verbatim>\<open>revisions\<close> as arguments.
\<close>

fun revisions_loop ::
  "'p dmp \<Rightarrow> OperationDict list \<Rightarrow> int \<Rightarrow> string \<Rightarrow> Revision list
   \<Rightarrow> error + Revision list" where
  "revisions_loop D [] current_revision last_design revisions = Inr revisions"
| "revisions_loop D (operation # operations) current_revision last_design revisions =
     (case BioDesignOperation_init operation of
        Inl e \<Rightarrow> Inl e
      | Inr op \<Rightarrow>
          (let revisions = revisions @ [make_revision current_revision last_design op]
           in case apply_change D (change op) last_design of
                Inl e \<Rightarrow> Inl e
              | Inr last_design \<Rightarrow>
                  revisions_loop D operations (current_revision - 1) last_design revisions))"

text \<open>\<^verbatim>\<open>compute_revisions\<close> (lines 197-225).\<close>

definition compute_revisions ::
  "'p dmp \<Rightarrow> string \<Rightarrow> OperationDict list \<Rightarrow> error + Revision list" where
  "compute_revisions D last_design changelog' =
     (let current_revision = int (length changelog');
          revisions = [];
          changelog' = rev changelog'
      in revisions_loop D changelog' current_revision last_design revisions)"

section \<open>Encryption\<close>

text \<open>
  The package \<^verbatim>\<open>cryptography\<close> is not part of this repository. \<open>aes_cbc_encrypt key iv data\<close>
  stands for \<^verbatim>\<open>Cipher(algorithms.AES(key), modes.CBC(iv))\<close> with \<^verbatim>\<open>encryptor().update(data) +
  finalize()\<close>, which raises \<^verbatim>\<open>ValueError\<close> for a key or an IV of a wrong length and for data
  that is not a whole number of blocks; \<open>aes_cbc_decrypt\<close> is the decryptor. \<open>pkcs7_pad\<close> and
  \<open>pkcs7_unpad\<close> are the padder and the unpadder of \<^verbatim>\<open>padding.PKCS7(128)\<close>.
\<close>

record cryptolib =
  aes_cbc_encrypt :: "bytes \<Rightarrow> bytes \<Rightarrow> bytes \<Rightarrow> error + bytes"
  aes_cbc_decrypt :: "bytes \<Rightarrow> bytes \<Rightarrow> bytes \<Rightarrow> error + bytes"
  pkcs7_pad :: "bytes \<Rightarrow> bytes"
  pkcs7_unpad :: "bytes \<Rightarrow> error + bytes"

text \<open>
  \<^verbatim>\<open>encrypt_string\<close> (lines 276-315). \<open>encryption_key\<close> is the value of
  \<^verbatim>\<open>os.getenv('ENCRYPTION_KEY')\<close> and \<open>iv\<close> the 16 bytes drawn by \<^verbatim>\<open>os.urandom(16)\<close>.
\<close>

definition encrypt_string ::
  "stdlib \<Rightarrow> cryptolib \<Rightarrow> string option \<Rightarrow> bytes \<Rightarrow> string \<Rightarrow> error + string" where
  "encrypt_string L C encryption_key iv string_to_encrypt =
     (if falsy encryption_key then Inl ValueError
      else
        (let encryption_key = str_encode L (the encryption_key);
             padded_data = pkcs7_pad C (str_encode L string_to_encrypt)
         in case aes_cbc_encrypt C encryption_key iv padded_data of
              Inl e \<Rightarrow> Inl e
            | Inr encrypted \<Rightarrow>
                (let encrypted_message = b64encode L (iv @ encrypted)
                 in Inr encrypted_message)))"

text \<open>\<^verbatim>\<open>decrypt_string\<close> (lines 227-274).\<close>

definition decrypt_string ::
  "stdlib \<Rightarrow> cryptolib \<Rightarrow> string option \<Rightarrow> string \<Rightarrow> error + string" where
  "decrypt_string L C encryption_key encrypted_base64_string =
     (if falsy encryption_key then Inl ValueError
      else
        (let key = str_encode L (the encryption_key)
         in case b64decode L encrypted_base64_string of
              Inl e \<Rightarrow> Inl e
            | Inr encrypted_data_with_iv \<Rightarrow>
                (let iv = take 16 encrypted_data_with_iv;
                     encrypted_data = drop 16 encrypted_data_with_iv
                 in case aes_cbc_decrypt C key iv encrypted_data of
                      Inl e \<Rightarrow> Inl e
                    | Inr original_data \<Rightarrow>
                        (case pkcs7_unpad C original_data of
                           Inl e \<Rightarrow> Inl e
                         | Inr unpadded_data \<Rightarrow> bytes_decode L unpadded_data))))"

section \<open>The provider's validation\<close>

text \<open>
  \<^verbatim>\<open>str.endswith\<close>, and \<^verbatim>\<open>LatticeSynthesisProviderTool.design_and_metadata_match\<close>
  (LatticeSynthProviderTool.py, lines 38-71). \<open>genbank_seq\<close> stands for Biopython's
  \<^verbatim>\<open>str(SeqIO.read(handle, "genbank").seq)\<close> on the text of a file.
\<close>

definition endswith :: "string \<Rightarrow> string \<Rightarrow> bool" where
  "endswith s suffix = (length suffix \<le> length s \<and> drop (length s - length suffix) s = suffix)"

definition design_and_metadata_match ::
  "stdlib \<Rightarrow> cryptolib \<Rightarrow> (string \<Rightarrow> error + string) \<Rightarrow> string option \<Rightarrow> fs \<Rightarrow> string \<Rightarrow> string
   \<Rightarrow> error + bool" where
  "design_and_metadata_match L C genbank_seq encryption_key files design_file metadata_file =
     (case files metadata_file of
        None \<Rightarrow> Inl FileNotFoundError
      | Some metadata_str \<Rightarrow>
          (case decrypt_string L C encryption_key metadata_str of
             Inl e \<Rightarrow> Inl e
           | Inr decrypted_metadata \<Rightarrow>
               (case json_loads L decrypted_metadata of
                  Inl e \<Rightarrow> Inl e
                | Inr metadata \<Rightarrow>
                    (let design_checksum_in_metadata = designChecksum metadata
                     in if endswith design_file ''.pdb'' then
                          (case files design_file of
                             None \<Rightarrow> Inl FileNotFoundError
                           | Some design_str \<Rightarrow>
                               Inr (design_checksum_in_metadata = calculate_checksum L design_str))
                        else
                          (case files design_file of
                             None \<Rightarrow> Inl FileNotFoundError
                           | Some gb \<Rightarrow>
                               (case genbank_seq gb of
                                  Inl e \<Rightarrow> Inl e
                                | Inr seq \<Rightarrow>
                                    Inr (design_checksum_in_metadata
                                           = calculate_checksum L seq)))))))"

text \<open>
  \<^verbatim>\<open>place_order\<close> (provider-server.py, lines 27-76). The request body carries the two
  optional paths; the response is the JSON body with the HTTP status. An exception that
  escapes the handler is the \<open>Inl\<close> result.
\<close>

record OrderRequest =
  designFilePath :: "string option"
  metadataFilePath :: "string option"

record Response =
  error_flag :: bool
  message :: string
  status_code :: nat

definition place_order ::
  "stdlib \<Rightarrow> cryptolib \<Rightarrow> (string \<Rightarrow> error + string) \<Rightarrow> string option \<Rightarrow> fs \<Rightarrow> OrderRequest
   \<Rightarrow> error + Response" where
  "place_order L C genbank_seq encryption_key files data =
     (let design_file = designFilePath data;
          metadata_file = metadataFilePath data
      in if falsy design_file \<or> falsy metadata_file then
           Inr \<lparr> error_flag = True,
                 message = ''Both design file and metadata file are required.'',
                 status_code = 400 \<rparr>
         else
           (let design_full_path = ''exported/'' @ the design_file;
                metadata_full_path = ''exported/'' @ the metadata_file
            in case design_and_metadata_match L C genbank_seq encryption_key files
                      design_full_path metadata_full_path of
                 Inl e \<Rightarrow> Inl e
               | Inr matches \<Rightarrow>
                   if \<not> matches then
                     Inr \<lparr> error_flag = True,
                           message = ''Design file and metadata file do not match. Please upload matching files.'',
                           status_code = 200 \<rparr>
                   else
                     Inr \<lparr> error_flag = False,
                           message = ''Order placed successfully.'',
                           status_code = 200 \<rparr>))"

text \<open>The response of \<open>place_order\<close> to a pair that does not match.\<close>

definition mismatch_response :: Response where
  "mismatch_response =
     \<lparr> error_flag = True,
       message = ''Design file and metadata file do not match. Please upload matching files.'',
       status_code = 200 \<rparr>"

section \<open>Sequences of edits\<close>

text \<open>
  The calling sequence of \<^verbatim>\<open>IOperation.execute\<close> (IOperation.py, lines 120-145, on the text
  of a design): every edit computes \<open>compute_difference\<close> of the previous and the new content
  and appends it with \<open>update_metadata_with_operation\<close>. A step is the clock reading, the
  new content, the operation code and the operation details of one edit.
\<close>

type_synonym step = "string \<times> string \<times> string \<times> (string \<times> string) list"

definition step_content :: "step \<Rightarrow> string" where
  "step_content s = fst (snd s)"

fun run_updates ::
  "stdlib \<Rightarrow> 'p dmp \<Rightarrow> fs \<Rightarrow> string \<Rightarrow> string \<Rightarrow> step list \<Rightarrow> error + fs" where
  "run_updates L D files metadata_path my_sequence [] = Inr files"
| "run_updates L D files metadata_path my_sequence ((now, new_sequence, code, details) # steps) =
     (let diff = compute_difference D my_sequence new_sequence
      in case update_metadata_with_operation L now files metadata_path new_sequence code
                details diff of
           Inl e \<Rightarrow> Inl e
         | Inr (files', metadata) \<Rightarrow> run_updates L D files' metadata_path new_sequence steps)"

text \<open>
  The changelog and the revisions that belong to such a sequence: entry \<open>i\<close>
  holds the difference between content \<open>i - 1\<close> and content \<open>i\<close>, and the revision numbered
  \<open>i\<close> holds content \<open>i\<close> with the fields of entry \<open>i\<close>, the newest revision first.
\<close>

fun expected_changelog :: "'p dmp \<Rightarrow> string \<Rightarrow> step list \<Rightarrow> BioDesignOperation list" where
  "expected_changelog D prev [] = []"
| "expected_changelog D prev ((now, new_sequence, code, details) # steps) =
     \<lparr> operationCode = code, operationDetails = details,
       change = compute_difference D prev new_sequence,
       timestamp = now, tool = ''BioDesign tool'' \<rparr>
     # expected_changelog D new_sequence steps"

definition expected_revisions :: "step list \<Rightarrow> BioDesignOperation list \<Rightarrow> Revision list" where
  "expected_revisions steps ops =
     rev (map (\<lambda>(i, s, op). make_revision (int i + 1) (step_content s) op)
            (zip [0..<length steps] (zip steps ops)))"

section \<open>Contracts of the libraries\<close>

text \<open>
  What the properties below need from the libraries, stated as predicates on the parameters.
\<close>

text \<open>AES takes keys of 128, 192 and 256 bits.\<close>

definition valid_aes_key :: "bytes \<Rightarrow> bool" where
  "valid_aes_key key = (length key = 16 \<or> length key = 24 \<or> length key = 32)"

text \<open>
  \<^verbatim>\<open>json.loads\<close> reads back what \<^verbatim>\<open>json.dumps\<close> wrote; decoding inverts encoding, for UTF-8
  and for base64.
\<close>

definition json_contract :: "stdlib \<Rightarrow> bool" where
  "json_contract L = (\<forall>m. json_loads L (json_dumps L m) = Inr m)"

definition codec_contract :: "stdlib \<Rightarrow> bool" where
  "codec_contract L =
     ((\<forall>s. bytes_decode L (str_encode L s) = Inr s)
      \<and> (\<forall>b. b64decode L (b64encode L b) = Inr b))"

text \<open>
  Under a valid key and a 16-byte IV, CBC decryption inverts CBC encryption on whole
  blocks; PKCS7 padding fills up to whole blocks and unpadding removes it.
\<close>

definition crypto_contract :: "cryptolib \<Rightarrow> bool" where
  "crypto_contract C =
     ((\<forall>key iv d. valid_aes_key key \<and> length iv = 16 \<and> length d mod 16 = 0 \<longrightarrow>
          (\<exists>c. aes_cbc_encrypt C key iv d = Inr c \<and> aes_cbc_decrypt C key iv c = Inr d))
      \<and> (\<forall>d. length (pkcs7_pad C d) mod 16 = 0 \<and> pkcs7_unpad C (pkcs7_pad C d) = Inr d))"

text \<open>
  \<^verbatim>\<open>patch_make(x, y)\<close> gives patches that survive the text form and turn \<open>x\<close> into \<open>y\<close>;
  the empty text is the empty list of patches, which changes nothing.
\<close>

definition dmp_contract :: "'p dmp \<Rightarrow> bool" where
  "dmp_contract D =
     ((\<forall>x y. \<exists>ps. patch_fromText D (patch_toText D (patch_make D x y)) = Inr ps
                \<and> fst (patch_apply D ps x) = y)
      \<and> patch_fromText D [] = Inr []
      \<and> (\<forall>x. fst (patch_apply D [] x) = x))"

section \<open>Reference instances of the libraries\<close>

text \<open>
  Small executable instances of the library parameters. They show that the contracts can be
  met and let the properties be evaluated on concrete inputs. Strings are written with a
  \<open>+\<close> before every character and a closing \<open>.\<close>; a metadata record is the sequence of its
  fields; the cipher chains a byte-wise XOR; the padding is PKCS7 with 16-byte blocks; a
  patch is a pair of the text it expects and the text it produces.
\<close>

definition enc_str :: "string \<Rightarrow> string" where
  "enc_str s = concat (map (\<lambda>c. [CHR ''+'', c]) s) @ ''.''"

fun dec_str :: "string \<Rightarrow> (string \<times> string) option" where
  "dec_str [] = None"
| "dec_str [m] = (if m = CHR ''.'' then Some ([], []) else None)"
| "dec_str (m # c # r) =
     (if m = CHR ''.'' then Some ([], c # r)
      else (case dec_str r of None \<Rightarrow> None | Some (s, rest) \<Rightarrow> Some (c # s, rest)))"

definition enc_opt :: "string option \<Rightarrow> string" where
  "enc_opt v = (case v of None \<Rightarrow> enc_str [] @ enc_str [] | Some s \<Rightarrow> enc_str ''s'' @ enc_str s)"

definition dec_opt :: "string \<Rightarrow> (string option \<times> string) option" where
  "dec_opt t =
     (case dec_str t of None \<Rightarrow> None
      | Some (flag, t1) \<Rightarrow>
          (case dec_str t1 of None \<Rightarrow> None
           | Some (s, t2) \<Rightarrow> Some (if flag = [] then None else Some s, t2)))"

definition enc_count :: "nat \<Rightarrow> string" where
  "enc_count n = enc_str (replicate n CHR ''1'')"

definition enc_details :: "(string \<times> string) list \<Rightarrow> string" where
  "enc_details kvs = concat (map (\<lambda>(k, v). enc_str k @ enc_str v) kvs)"

primrec dec_details :: "nat \<Rightarrow> string \<Rightarrow> ((string \<times> string) list \<times> string) option" where
  "dec_details 0 t = Some ([], t)"
| "dec_details (Suc n) t =
     (case dec_str t of None \<Rightarrow> None
      | Some (k, t1) \<Rightarrow>
          (case dec_str t1 of None \<Rightarrow> None
           | Some (v, t2) \<Rightarrow>
               (case dec_details n t2 of None \<Rightarrow> None
                | Some (kvs, t3) \<Rightarrow> Some ((k, v) # kvs, t3))))"

definition enc_op :: "BioDesignOperation \<Rightarrow> string" where
  "enc_op op = enc_str (operationCode op) @ enc_count (length (operationDetails op))
       @ enc_details (operationDetails op) @ enc_str (change op) @ enc_str (timestamp op)
       @ enc_str (tool op)"

definition dec_op :: "string \<Rightarrow> (BioDesignOperation \<times> string) option" where
  "dec_op t =
     (case dec_str t of None \<Rightarrow> None
      | Some (code, t1) \<Rightarrow>
      (case dec_str t1 of None \<Rightarrow> None
      | Some (cnt, t2) \<Rightarrow>
      (case dec_details (length cnt) t2 of None \<Rightarrow> None
      | Some (det, t3) \<Rightarrow>
      (case dec_str t3 of None \<Rightarrow> None
      | Some (chg, t4) \<Rightarrow>
      (case dec_str t4 of None \<Rightarrow> None
      | Some (ts, t5) \<Rightarrow>
      (case dec_str t5 of None \<Rightarrow> None
      | Some (tn, t6) \<Rightarrow>
          Some (\<lparr>operationCode = code, operationDetails = det, change = chg,
                 timestamp = ts, tool = tn\<rparr>, t6)))))))"

definition enc_ops :: "BioDesignOperation list \<Rightarrow> string" where
  "enc_ops ops = concat (map enc_op ops)"

primrec dec_ops :: "nat \<Rightarrow> string \<Rightarrow> (BioDesignOperation list \<times> string) option" where
  "dec_ops 0 t = Some ([], t)"
| "dec_ops (Suc n) t =
     (case dec_op t of None \<Rightarrow> None
      | Some (op, t1) \<Rightarrow>
          (case dec_ops n t1 of None \<Rightarrow> None
           | Some (ops, t2) \<Rightarrow> Some (op # ops, t2)))"

definition ref_json_dumps :: "BioDesignMetadata \<Rightarrow> string" where
  "ref_json_dumps m = enc_str (id m) @ enc_opt (parentMetadataId m) @ enc_opt (designName m)
      @ enc_str (designChecksum m) @ enc_str (author m) @ enc_str (description m)
      @ enc_str (lastUpdated m) @ enc_count (length (changelog m)) @ enc_ops (changelog m)"

definition ref_json_loads :: "string \<Rightarrow> error + BioDesignMetadata" where
  "ref_json_loads t =
     (case dec_str t of None \<Rightarrow> Inl JSONDecodeError
      | Some (i, t1) \<Rightarrow>
      (case dec_opt t1 of None \<Rightarrow> Inl JSONDecodeError
      | Some (p, t2) \<Rightarrow>
      (case dec_opt t2 of None \<Rightarrow> Inl JSONDecodeError
      | Some (n, t3) \<Rightarrow>
      (case dec_str t3 of None \<Rightarrow> Inl JSONDecodeError
      | Some (cs, t4) \<Rightarrow>
      (case dec_str t4 of None \<Rightarrow> Inl JSONDecodeError
      | Some (a, t5) \<Rightarrow>
      (case dec_str t5 of None \<Rightarrow> Inl JSONDecodeError
      | Some (d, t6) \<Rightarrow>
      (case dec_str t6 of None \<Rightarrow> Inl JSONDecodeError
      | Some (u, t7) \<Rightarrow>
      (case dec_str t7 of None \<Rightarrow> Inl JSONDecodeError
      | Some (cnt, t8) \<Rightarrow>
      (case dec_ops (length cnt) t8 of None \<Rightarrow> Inl JSONDecodeError
      | Some (ops, t9) \<Rightarrow>
          if t9 = [] then
            Inr \<lparr>id = i, parentMetadataId = p, designName = n, designChecksum = cs,
                 author = a, description = d, lastUpdated = u, changelog = ops\<rparr>
          else Inl JSONDecodeError)))))))))"

definition byte_of_char :: "char \<Rightarrow> 8 word" where
  "byte_of_char c = of_nat (of_char c)"

definition char_of_byte :: "8 word \<Rightarrow> char" where
  "char_of_byte b = char_of (unat b)"

definition ref_stdlib :: stdlib where
  "ref_stdlib =
     \<lparr> str_encode = map byte_of_char,
       bytes_decode = (\<lambda>bs. Inr (map char_of_byte bs)),
       sha256_hexdigest = (\<lambda>bs. map char_of_byte (rev bs)),
       json_dumps = ref_json_dumps,
       json_loads = ref_json_loads,
       b64encode = map char_of_byte,
       b64decode = (\<lambda>s. Inr (map byte_of_char s)) \<rparr>"

definition xor_all :: "bytes \<Rightarrow> 8 word" where
  "xor_all bs = fold (XOR) bs 0"

primrec chain_encrypt :: "8 word \<Rightarrow> 8 word \<Rightarrow> bytes \<Rightarrow> bytes" where
  "chain_encrypt k prev [] = []"
| "chain_encrypt k prev (p # ps) = ((p XOR prev) XOR k) # chain_encrypt k ((p XOR prev) XOR k) ps"

primrec chain_decrypt :: "8 word \<Rightarrow> 8 word \<Rightarrow> bytes \<Rightarrow> bytes" where
  "chain_decrypt k prev [] = []"
| "chain_decrypt k prev (c # cs) = ((c XOR k) XOR prev) # chain_decrypt k c cs"

definition ref_cbc_encrypt :: "bytes \<Rightarrow> bytes \<Rightarrow> bytes \<Rightarrow> error + bytes" where
  "ref_cbc_encrypt key iv d =
     (if valid_aes_key key \<and> length iv = 16 \<and> length d mod 16 = 0
      then Inr (chain_encrypt (xor_all key) (xor_all iv) d) else Inl ValueError)"

definition ref_cbc_decrypt :: "bytes \<Rightarrow> bytes \<Rightarrow> bytes \<Rightarrow> error + bytes" where
  "ref_cbc_decrypt key iv d =
     (if valid_aes_key key \<and> length iv = 16 \<and> length d mod 16 = 0
      then Inr (chain_decrypt (xor_all key) (xor_all iv) d) else Inl ValueError)"

definition ref_pkcs7_pad :: "bytes \<Rightarrow> bytes" where
  "ref_pkcs7_pad d = (let n = 16 - length d mod 16 in d @ replicate n (of_nat n))"

definition ref_pkcs7_unpad :: "bytes \<Rightarrow> error + bytes" where
  "ref_pkcs7_unpad d =
     (if d = [] \<or> length d mod 16 \<noteq> 0 then Inl ValueError
      else (let n = unat (last d)
            in if n = 0 \<or> 16 < n \<or> drop (length d - n) d \<noteq> replicate n (last d)
               then Inl ValueError
               else Inr (take (length d - n) d)))"

definition ref_cryptolib :: cryptolib where
  "ref_cryptolib =
     \<lparr> aes_cbc_encrypt = ref_cbc_encrypt,
       aes_cbc_decrypt = ref_cbc_decrypt,
       pkcs7_pad = ref_pkcs7_pad,
       pkcs7_unpad = ref_pkcs7_unpad \<rparr>"

definition ref_patch_make :: "string \<Rightarrow> string \<Rightarrow> (string \<times> string) list" where
  "ref_patch_make x y = (if x = y then [] else [(x, y)])"

definition ref_patch_toText :: "(string \<times> string) list \<Rightarrow> string" where
  "ref_patch_toText ps = concat (map (\<lambda>(a, b). enc_str a @ enc_str b) ps)"

definition ref_patch_fromText :: "string \<Rightarrow> error + (string \<times> string) list" where
  "ref_patch_fromText t =
     (if t = [] then Inr []
      else (case dec_str t of None \<Rightarrow> Inl ValueError
            | Some (a, t1) \<Rightarrow>
                (case dec_str t1 of None \<Rightarrow> Inl ValueError
                 | Some (b, t2) \<Rightarrow> if t2 = [] then Inr [(a, b)] else Inl ValueError)))"

primrec ref_patch_apply :: "(string \<times> string) list \<Rightarrow> string \<Rightarrow> string \<times> bool list" where
  "ref_patch_apply [] text = (text, [])"
| "ref_patch_apply (p # ps) text =
     (let ok = (text = fst p);
          r = ref_patch_apply ps (if ok then snd p else text)
      in (fst r, ok # snd r))"

definition ref_dmp :: "(string \<times> string) dmp" where
  "ref_dmp =
     \<lparr> patch_make = ref_patch_make,
       patch_toText = ref_patch_toText,
       patch_fromText = ref_patch_fromText,
       patch_apply = ref_patch_apply \<rparr>"

text \<open>The text of a patch that expects a design of 24 \<open>t\<close> and so does not fit \<open>atgc\<close>.\<close>

definition stale_change :: string where
  "stale_change = ref_patch_toText [(''tttttttttttttttttttttttt'', ''gggg'')]"

definition ref_genbank_seq :: "string \<Rightarrow> error + string" where
  "ref_genbank_seq gb = (if gb = [] then Inl ValueError else Inr gb)"

text \<open>A record for the design \<open>atgc\<close> and its encrypted export.\<close>

definition sample_metadata :: BioDesignMetadata where
  "sample_metadata =
     \<lparr> id = ''id-1'', parentMetadataId = None, designName = Some ''d'',
       designChecksum = calculate_checksum ref_stdlib ''atgc'',
       author = ''John Smith'', description = [], lastUpdated = ''t0'', changelog = [] \<rparr>"

definition sample_token :: string where
  "sample_token =
     projr (encrypt_string ref_stdlib ref_cryptolib (Some ''0123456789abcdef'')
              (replicate 16 7) (json_dumps ref_stdlib sample_metadata))"

section \<open>The reference instances meet the contracts\<close>

lemma dec_enc_str: "dec_str (enc_str s @ r) = Some (s, r)"
  apply (induction s)
   apply (cases r; simp add: enc_str_def)
  apply (simp add: enc_str_def)
  done

lemma dec_enc_opt: "dec_opt (enc_opt v @ r) = Some (v, r)"
  by (cases v) (simp_all add: dec_opt_def enc_opt_def dec_enc_str)

lemma dec_enc_details: "dec_details (length kvs) (enc_details kvs @ r) = Some (kvs, r)"
  by (induction kvs) (auto simp: enc_details_def dec_enc_str)

lemma dec_enc_op: "dec_op (enc_op op @ r) = Some (op, r)"
  by (simp add: dec_op_def enc_op_def enc_count_def dec_enc_str dec_enc_details)

lemma dec_enc_ops: "dec_ops (length ops) (enc_ops ops @ r) = Some (ops, r)"
  by (induction ops) (auto simp: enc_ops_def dec_enc_op)

lemma ref_json_roundtrip: "ref_json_loads (ref_json_dumps m) = Inr m"
  using dec_enc_ops [of "changelog m" "[]"]
  by (simp add: ref_json_loads_def ref_json_dumps_def enc_count_def dec_enc_str dec_enc_opt)

lemma char_of_byte_of_char: "char_of_byte (byte_of_char c) = c"
  by (simp add: char_of_byte_def byte_of_char_def unat_of_nat)

lemma byte_of_char_of_byte: "byte_of_char (char_of_byte b) = b"
proof -
  have "unat b < 256" using unsigned_less [of b, where ?'a = nat] by simp
  then show ?thesis by (simp add: char_of_byte_def byte_of_char_def of_char_of)
qed

lemma chain_roundtrip: "chain_decrypt k prev (chain_encrypt k prev ps) = ps"
  by (induction ps arbitrary: prev) (simp_all add: xor.assoc)

lemma length_chain_encrypt: "length (chain_encrypt k prev ps) = length ps"
  by (induction ps arbitrary: prev) simp_all

lemma pad_arith: "((n::nat) + (16 - n mod 16)) mod 16 = 0"
  by presburger

lemma length_ref_pad: "length (ref_pkcs7_pad d) mod 16 = 0"
  using pad_arith [of "length d"] by (simp add: ref_pkcs7_pad_def Let_def)

lemma ref_unpad_pad: "ref_pkcs7_unpad (ref_pkcs7_pad d) = Inr d"
proof -
  define n where "n = 16 - length d mod 16"
  have n: "0 < n" "n \<le> 16" by (simp_all add: n_def)
  have u: "unat (of_nat n :: 8 word) = n" using n by (simp add: unat_of_nat)
  define e where "e = d @ replicate n (of_nat n :: 8 word)"
  have p: "ref_pkcs7_pad d = e"
    by (simp add: ref_pkcs7_pad_def n_def e_def Let_def)
  have l: "last e = of_nat n" using n by (simp add: e_def)
  have m: "length e mod 16 = 0"
    using length_ref_pad [of d] p by simp
  have ne: "e \<noteq> []" using n by (simp add: e_def)
  have len: "length e - n = length d" by (simp add: e_def)
  have dr: "drop (length d) e = replicate n (of_nat n)" by (simp add: e_def)
  have tk: "take (length d) e = d" by (simp add: e_def)
  have "ref_pkcs7_unpad e = Inr d"
    unfolding ref_pkcs7_unpad_def Let_def l u len dr tk using n m ne by simp
  then show ?thesis by (simp add: p)
qed

lemma ref_json_contract: "json_contract ref_stdlib"
  by (simp add: json_contract_def ref_stdlib_def ref_json_roundtrip)

lemma ref_codec_contract: "codec_contract ref_stdlib"
  by (simp add: codec_contract_def ref_stdlib_def comp_def char_of_byte_of_char
      byte_of_char_of_byte)

lemma ref_crypto_contract: "crypto_contract ref_cryptolib"
  by (simp add: crypto_contract_def ref_cryptolib_def ref_cbc_encrypt_def ref_cbc_decrypt_def
      length_chain_encrypt chain_roundtrip length_ref_pad ref_unpad_pad)

lemma enc_str_not_Nil: "enc_str s \<noteq> []"
  by (simp add: enc_str_def)

lemma ref_fromText_toText:
  "ref_patch_fromText (ref_patch_toText [(a, b)]) = Inr [(a, b)]"
  using dec_enc_str [of a "enc_str b"] dec_enc_str [of b "[]"]
  by (simp add: ref_patch_fromText_def ref_patch_toText_def enc_str_not_Nil)

lemma ref_dmp_roundtrip:
  "\<exists>ps. ref_patch_fromText (ref_patch_toText (ref_patch_make x y)) = Inr ps
        \<and> fst (ref_patch_apply ps x) = y"
proof (cases "x = y")
  case True
  then show ?thesis
    by (simp add: ref_patch_make_def ref_patch_toText_def ref_patch_fromText_def)
next
  case False
  then have "ref_patch_make x y = [(x, y)]" by (simp add: ref_patch_make_def)
  then show ?thesis by (simp add: ref_fromText_toText)
qed

lemma ref_dmp_contract: "dmp_contract ref_dmp"
  using ref_dmp_roundtrip
  by (simp add: dmp_contract_def ref_dmp_def ref_patch_fromText_def)

section \<open>Properties of the checksum\<close>

lemma lower_char_idem: "lower_char (lower_char c) = lower_char c"
proof -
  have n: "(of_char c :: nat) < 256" by simp
  show ?thesis
    unfolding lower_char_def Let_def using n
    by (auto simp: of_char_of)
qed

lemma lower_idem: "lower (lower s) = lower s"
  by (simp add: lower_def lower_char_idem)

text \<open>
  C9. The checksum of a content string is the hex-encoded SHA-256 digest of the lowercased
  content, and lowercasing the content first does not change the checksum.
\<close>

theorem C9_checksum_of_lowercase:
  "calculate_checksum L C = sha256_hexdigest L (str_encode L (lower C))
   \<and> calculate_checksum L C = calculate_checksum L (lower C)"
  by (simp add: calculate_checksum_def lower_idem)

section \<open>Properties of create and update\<close>

lemma update_success:
  assumes "files metadata_path = Some text" and "json_loads L text = Inr m"
  shows "update_metadata_with_operation L now files metadata_path dsgn code details chg =
         Inr (files(metadata_path \<mapsto>
                 json_dumps L (m\<lparr>lastUpdated := now,
                                  designChecksum := calculate_checksum L dsgn,
                                  changelog := changelog m @
                                    [\<lparr>operationCode = code, operationDetails = details,
                                      change = chg, timestamp = now,
                                      tool = ''BioDesign tool''\<rparr>]\<rparr>)),
              m\<lparr>lastUpdated := now,
                designChecksum := calculate_checksum L dsgn,
                changelog := changelog m @
                  [\<lparr>operationCode = code, operationDetails = details,
                    change = chg, timestamp = now, tool = ''BioDesign tool''\<rparr>]\<rparr>)"
  using assms by (simp add: update_metadata_with_operation_def Let_def)

lemma update_Inr_cases:
  assumes "update_metadata_with_operation L now files metadata_path dsgn code details chg =
           Inr (files', m')"
  shows "\<exists>text m. files metadata_path = Some text \<and> json_loads L text = Inr m"
  using assms
  by (auto simp: update_metadata_with_operation_def Let_def split: option.splits sum.splits)

text \<open>
  C1. The record that \<open>create_metadata\<close> returns and writes carries the checksum of the
  design it was given, and whenever \<open>update_metadata_with_operation\<close> returns, the record
  it returns and writes carries the checksum of the new design.
\<close>

theorem C1_checksum_invariant:
  "designChecksum (snd (create_metadata L uuid now0 files0 parent name auth descr content))
     = calculate_checksum L content
   \<and> fst (create_metadata L uuid now0 files0 parent name auth descr content)
         (metadata_file_of name)
     = Some (json_dumps L (snd (create_metadata L uuid now0 files0 parent name auth descr content)))
   \<and> (update_metadata_with_operation L now files path newContent code details chg
         = Inr (files', m')
       \<longrightarrow> designChecksum m' = calculate_checksum L newContent
           \<and> files' path = Some (json_dumps L m'))"
proof -
  have upd: "designChecksum m' = calculate_checksum L newContent
             \<and> files' path = Some (json_dumps L m')"
    if h: "update_metadata_with_operation L now files path newContent code details chg
           = Inr (files', m')"
  proof -
    from update_Inr_cases [OF h] obtain t m
      where f: "files path = Some t" and j: "json_loads L t = Inr m" by blast
    have "update_metadata_with_operation L now files path newContent code details chg =
          Inr (files(path \<mapsto>
                 json_dumps L (m\<lparr>lastUpdated := now,
                                  designChecksum := calculate_checksum L newContent,
                                  changelog := changelog m @
                                    [\<lparr>operationCode = code, operationDetails = details,
                                      change = chg, timestamp = now,
                                      tool = ''BioDesign tool''\<rparr>]\<rparr>)),
              m\<lparr>lastUpdated := now,
                designChecksum := calculate_checksum L newContent,
                changelog := changelog m @
                  [\<lparr>operationCode = code, operationDetails = details,
                    change = chg, timestamp = now, tool = ''BioDesign tool''\<rparr>]\<rparr>)"
      using f j by (rule update_success)
    with h show ?thesis by auto
  qed
  show ?thesis using upd by (simp add: create_metadata_def Let_def)
qed

theorem C1_checksum_invariant_witness:
  "(\<exists>files' m'.
      update_metadata_with_operation ref_stdlib ''t1''
        (fst (create_metadata ref_stdlib ''id-1'' ''t0'' Map.empty None ''d'' ''John Smith'' []
                ''atgc''))
        (metadata_file_of ''d'') ''ATGCtga'' ''APPEND'' [] [] = Inr (files', m')
      \<and> designChecksum m' = calculate_checksum ref_stdlib ''atgctga''
      \<and> files' (metadata_file_of ''d'') = Some (json_dumps ref_stdlib m'))
   \<and> designChecksum
         (snd (create_metadata ref_stdlib ''id-1'' ''t0'' Map.empty None ''d'' ''John Smith'' []
                ''atgc''))
       = calculate_checksum ref_stdlib ''atgc''"
proof -
  let ?c = "create_metadata ref_stdlib ''id-1'' ''t0'' Map.empty None ''d'' ''John Smith'' [] ''atgc''"
  have f: "fst ?c (metadata_file_of ''d'') = Some (json_dumps ref_stdlib (snd ?c))"
    by (simp add: create_metadata_def Let_def)
  have j: "json_loads ref_stdlib (json_dumps ref_stdlib (snd ?c)) = Inr (snd ?c)"
    using ref_json_contract by (simp add: json_contract_def)
  have lc: "calculate_checksum ref_stdlib ''ATGCtga'' = calculate_checksum ref_stdlib ''atgctga''"
  proof -
    have "lower ''ATGCtga'' = ''atgctga''" and "lower ''atgctga'' = ''atgctga''"
      by code_simp+
    then show ?thesis by (simp add: calculate_checksum_def)
  qed
  have u: "update_metadata_with_operation ref_stdlib ''t1'' (fst ?c) (metadata_file_of ''d'')
             ''ATGCtga'' ''APPEND'' [] []
           = Inr ((fst ?c)(metadata_file_of ''d'' \<mapsto>
                 json_dumps ref_stdlib ((snd ?c)\<lparr>lastUpdated := ''t1'',
                                  designChecksum := calculate_checksum ref_stdlib ''ATGCtga'',
                                  changelog := changelog (snd ?c) @
                                    [\<lparr>operationCode = ''APPEND'', operationDetails = [],
                                      change = [], timestamp = ''t1'',
                                      tool = ''BioDesign tool''\<rparr>]\<rparr>)),
              (snd ?c)\<lparr>lastUpdated := ''t1'',
                designChecksum := calculate_checksum ref_stdlib ''ATGCtga'',
                changelog := changelog (snd ?c) @
                  [\<lparr>operationCode = ''APPEND'', operationDetails = [],
                    change = [], timestamp = ''t1'', tool = ''BioDesign tool''\<rparr>]\<rparr>)"
    using f j by (rule update_success)
  let ?m = "(snd ?c)\<lparr>lastUpdated := ''t1'',
                designChecksum := calculate_checksum ref_stdlib ''ATGCtga'',
                changelog := changelog (snd ?c) @
                  [\<lparr>operationCode = ''APPEND'', operationDetails = [],
                    change = [], timestamp = ''t1'', tool = ''BioDesign tool''\<rparr>]\<rparr>"
  let ?f = "(fst ?c)(metadata_file_of ''d'' \<mapsto> json_dumps ref_stdlib ?m)"
  from C1_checksum_invariant [of ref_stdlib "''id-1''" "''t0''" Map.empty None "''d''"
      "''John Smith''" "[]" "''atgc''" "''t1''" "fst ?c" "metadata_file_of ''d''" "''ATGCtga''"
      "''APPEND''" "[]" "[]" ?f ?m] u
  have c: "designChecksum (snd ?c) = calculate_checksum ref_stdlib ''atgc''"
    and d: "designChecksum ?m = calculate_checksum ref_stdlib ''ATGCtga''"
    and w: "?f (metadata_file_of ''d'') = Some (json_dumps ref_stdlib ?m)"
    by blast+
  show ?thesis
    apply (rule conjI)
     apply (rule exI [of _ ?f], rule exI [of _ ?m])
     apply (intro conjI u w)
     apply (simp add: lc)
    apply (rule c)
    done
qed

section \<open>Patches and revisions\<close>

lemma apply_change_difference:
  assumes "dmp_contract D"
  shows "apply_change D (compute_difference D A B) B = Inr A"
proof -
  from assms obtain ps where
    ps: "patch_fromText D (patch_toText D (patch_make D B A)) = Inr ps"
    and ap: "fst (patch_apply D ps B) = A"
    unfolding dmp_contract_def by blast
  from assms have e: "patch_fromText D [] = Inr []" and n: "fst (patch_apply D [] B) = B"
    unfolding dmp_contract_def by blast+
  show ?thesis
  proof (cases "patch_toText D (patch_make D B A) = []")
    case True
    with ps e have "ps = []" by simp
    with ap n have "A = B" by simp
    with True show ?thesis by (simp add: apply_change_def compute_difference_def)
  next
    case False
    with ps ap show ?thesis
      by (auto simp add: apply_change_def compute_difference_def split: prod.splits)
  qed
qed

text \<open>
  C3. Applying the patch that \<open>compute_difference A B\<close> produced to \<open>B\<close> gives back \<open>A\<close>:
  the stored patch leads from the new content to the old one.
\<close>

theorem C3_patch_roundtrip:
  "dmp_contract D \<Longrightarrow> apply_change D (compute_difference D A B) B = Inr A"
  by (rule apply_change_difference)

theorem C3_patch_roundtrip_witness:
  "dmp_contract ref_dmp
   \<and> apply_change ref_dmp (compute_difference ref_dmp ''atgc'' ''atgctga'') ''atgctga'' = Inr ''atgc''"
  using C3_patch_roundtrip [OF ref_dmp_contract, of "''atgc''" "''atgctga''"] ref_dmp_contract
  by simp

lemma expected_changelog_append:
  "expected_changelog D prev (steps @ [(now, new, code, details)]) =
     expected_changelog D prev steps @
       [\<lparr> operationCode = code, operationDetails = details,
          change = compute_difference D (last (prev # map step_content steps)) new,
          timestamp = now, tool = ''BioDesign tool'' \<rparr>]"
  by (induction D prev steps rule: expected_changelog.induct) (simp_all add: step_content_def)

lemma length_expected_changelog: "length (expected_changelog D prev steps) = length steps"
  by (induction D prev steps rule: expected_changelog.induct) simp_all

lemma init_asdict: "BioDesignOperation_init (asdict_operation op) = Inr op"
  by (simp add: BioDesignOperation_init_def asdict_operation_def)

lemma asdict_operation_iff:
  "(\<exists>op. operation = asdict_operation op) \<longleftrightarrow>
   (other_keys operation = [] \<and> get_operationCode operation \<noteq> None
    \<and> get_operationDetails operation \<noteq> None \<and> get_change operation \<noteq> None
    \<and> get_timestamp operation \<noteq> None \<and> get_tool operation \<noteq> None)"
proof
  assume "\<exists>op. operation = asdict_operation op"
  then show "other_keys operation = [] \<and> get_operationCode operation \<noteq> None
    \<and> get_operationDetails operation \<noteq> None \<and> get_change operation \<noteq> None
    \<and> get_timestamp operation \<noteq> None \<and> get_tool operation \<noteq> None"
    by (auto simp: asdict_operation_def)
next
  assume a: "other_keys operation = [] \<and> get_operationCode operation \<noteq> None
    \<and> get_operationDetails operation \<noteq> None \<and> get_change operation \<noteq> None
    \<and> get_timestamp operation \<noteq> None \<and> get_tool operation \<noteq> None"
  then obtain c d g s n where
    "get_operationCode operation = Some c" "get_operationDetails operation = Some d"
    "get_change operation = Some g" "get_timestamp operation = Some s"
    "get_tool operation = Some n"
    by auto
  with a have "operation = asdict_operation
      \<lparr>operationCode = c, operationDetails = d, change = g, timestamp = s, tool = n\<rparr>"
    by (simp add: asdict_operation_def)
  then show "\<exists>op. operation = asdict_operation op" ..
qed

lemma init_TypeError:
  "(\<nexists>op. operation = asdict_operation op) \<Longrightarrow> BioDesignOperation_init operation = Inl TypeError"
  by (auto simp: asdict_operation_iff BioDesignOperation_init_def split: option.splits)

lemma revisions_loop_expected:
  assumes "dmp_contract D"
  shows "revisions_loop D (rev (map asdict_operation (expected_changelog D d0 steps)))
           (int (length steps))
           (last (d0 # map step_content steps)) acc
         = Inr (acc @ expected_revisions steps (expected_changelog D d0 steps))"
proof (induction steps arbitrary: acc rule: rev_induct)
  case Nil
  show ?case by (simp add: expected_revisions_def)
next
  case (snoc s steps)
  obtain now new code details where s: "s = (now, new, code, details)"
    by (cases s) auto
  let ?prev = "last (d0 # map step_content steps)"
  let ?op = "\<lparr> operationCode = code, operationDetails = details,
                change = compute_difference D ?prev new,
                timestamp = now, tool = ''BioDesign tool'' \<rparr>"
  have cl: "expected_changelog D d0 (steps @ [s]) = expected_changelog D d0 steps @ [?op]"
    by (simp add: s expected_changelog_append)
  have ac: "apply_change D (change ?op) new = Inr ?prev"
    using apply_change_difference [OF assms, of ?prev new] by simp
  have ex: "expected_revisions (steps @ [s]) (expected_changelog D d0 steps @ [?op])
            = make_revision (int (length steps) + 1) new ?op
              # expected_revisions steps (expected_changelog D d0 steps)"
    by (simp add: expected_revisions_def length_expected_changelog s step_content_def)
  have la: "last (d0 # map step_content (steps @ [s])) = new"
    by (simp add: s step_content_def)
  show ?case
    unfolding cl la ex
    using ac snoc.IH [of "acc @ [make_revision (int (length steps) + 1) new ?op]"]
    by (simp add: add.commute init_asdict)
qed

lemma run_updates_changelog:
  assumes "json_contract L" and "files path = Some (json_dumps L m0)"
  shows "\<exists>files' m. run_updates L D files path prev steps = Inr files'
           \<and> files' path = Some (json_dumps L m)
           \<and> changelog m = changelog m0 @ expected_changelog D prev steps"
  using assms(2)
proof (induction steps arbitrary: files m0 prev)
  case Nil
  then show ?case by auto
next
  case (Cons s steps)
  obtain now new code details where s: "s = (now, new, code, details)"
    by (cases s) auto
  let ?op = "\<lparr> operationCode = code, operationDetails = details,
                change = compute_difference D prev new,
                timestamp = now, tool = ''BioDesign tool'' \<rparr>"
  let ?m1 = "m0\<lparr>lastUpdated := now, designChecksum := calculate_checksum L new,
                 changelog := changelog m0 @ [?op]\<rparr>"
  have j: "json_loads L (json_dumps L m0) = Inr m0"
    using assms(1) by (simp add: json_contract_def)
  have u: "update_metadata_with_operation L now files path new code details
             (compute_difference D prev new)
           = Inr (files(path \<mapsto> json_dumps L ?m1), ?m1)"
    using Cons.prems j by (rule update_success)
  have "\<exists>files' m. run_updates L D (files(path \<mapsto> json_dumps L ?m1)) path new steps = Inr files'
           \<and> files' path = Some (json_dumps L m)
           \<and> changelog m = changelog ?m1 @ expected_changelog D new steps"
    by (rule Cons.IH) simp
  then obtain files' m where
    r: "run_updates L D (files(path \<mapsto> json_dumps L ?m1)) path new steps = Inr files'"
    and f: "files' path = Some (json_dumps L m)"
    and c: "changelog m = changelog ?m1 @ expected_changelog D new steps" by blast
  show ?case
    using u r f c by (auto simp: s Let_def)
qed

lemma expected_revisions_fields:
  assumes "length ops = length steps"
  shows "map revision (expected_revisions steps ops) = rev (map (\<lambda>i. int i + 1) [0..<length steps])"
    and "map design (expected_revisions steps ops) = rev (map step_content steps)"
    and "map BioDesignOperation.truncate (expected_revisions steps ops) = rev ops"
proof -
  let ?z = "zip [0..<length steps] (zip steps ops)"
  let ?F = "\<lambda>(i, s, op). make_revision (int i + 1) (step_content s) op"
  have e: "expected_revisions steps ops = rev (map ?F ?z)"
    by (simp add: expected_revisions_def)
  have l: "length [0..<length steps] = length (zip steps ops)" using assms by simp
  have fz: "map fst ?z = [0..<length steps]" using l by (rule map_fst_zip)
  have sz: "map snd ?z = zip steps ops" using l by (rule map_snd_zip)
  have f2: "map fst (zip steps ops) = steps" using assms by simp
  have s2: "map snd (zip steps ops) = ops" using assms by simp
  have "map revision (map ?F ?z) = map (\<lambda>i. int i + 1) (map fst ?z)"
    by (simp add: make_revision_def case_prod_unfold comp_def)
  then have r: "map revision (map ?F ?z) = map (\<lambda>i. int i + 1) [0..<length steps]"
    by (simp only: fz)
  have "map design (map ?F ?z) = map step_content (map fst (map snd ?z))"
    by (simp add: make_revision_def case_prod_unfold comp_def)
  then have d: "map design (map ?F ?z) = map step_content steps"
    by (simp only: sz f2)
  have "map BioDesignOperation.truncate (map ?F ?z) = map snd (map snd ?z)"
    by (simp add: make_revision_def case_prod_unfold comp_def BioDesignOperation.truncate_def)
  then have t: "map BioDesignOperation.truncate (map ?F ?z) = ops"
    by (simp only: sz s2)
  show "map revision (expected_revisions steps ops) = rev (map (\<lambda>i. int i + 1) [0..<length steps])"
    unfolding e rev_map [symmetric] r ..
  show "map design (expected_revisions steps ops) = rev (map step_content steps)"
    unfolding e rev_map [symmetric] d ..
  show "map BioDesignOperation.truncate (expected_revisions steps ops) = rev ops"
    unfolding e rev_map [symmetric] t ..
qed


text \<open>
  C2. After \<open>create_metadata\<close> with content \<open>D0\<close> and \<open>n\<close> updates with contents
  \<open>D1\<close>, ..., \<open>Dn\<close>, each storing \<open>compute_difference\<close> of the previous and the new content,
  \<open>compute_revisions\<close> on \<open>Dn\<close> and the stored changelog (its entries as the dictionaries
  that \<^verbatim>\<open>asdict\<close> wrote) returns \<open>n\<close> revisions, numbered
  \<open>n\<close> down to \<open>1\<close>, where revision \<open>i\<close> carries the design \<open>Di\<close> and the fields of changelog
  entry \<open>i\<close>.
\<close>

theorem C2_reconstruction:
  assumes "json_contract L" and "dmp_contract D"
  shows "\<exists>files' t m revs.
     run_updates L D (fst (create_metadata L uuid now0 files0 parent name auth descr D0))
        (metadata_file_of name) D0 steps = Inr files'
     \<and> files' (metadata_file_of name) = Some t \<and> json_loads L t = Inr m
     \<and> changelog m = expected_changelog D D0 steps
     \<and> compute_revisions D (last (D0 # map step_content steps))
           (map asdict_operation (changelog m)) = Inr revs
     \<and> length revs = length steps
     \<and> map revision revs = rev (map (\<lambda>i. int i + 1) [0..<length steps])
     \<and> map design revs = rev (map step_content steps)
     \<and> map BioDesignOperation.truncate revs = rev (changelog m)"
proof -
  let ?c = "create_metadata L uuid now0 files0 parent name auth descr D0"
  let ?p = "metadata_file_of name"
  have f0: "fst ?c ?p = Some (json_dumps L (snd ?c))" and c0: "changelog (snd ?c) = []"
    by (simp_all add: create_metadata_def Let_def)
  have "\<exists>files' m. run_updates L D (fst ?c) ?p D0 steps = Inr files'
           \<and> files' ?p = Some (json_dumps L m)
           \<and> changelog m = changelog (snd ?c) @ expected_changelog D D0 steps"
    using assms(1) f0 by (rule run_updates_changelog)
  then obtain files' m where
    r: "run_updates L D (fst ?c) ?p D0 steps = Inr files'"
    and f: "files' ?p = Some (json_dumps L m)"
    and c: "changelog m = expected_changelog D D0 steps"
    by (auto simp: c0)
  have j: "json_loads L (json_dumps L m) = Inr m"
    using assms(1) by (simp add: json_contract_def)
  let ?revs = "expected_revisions steps (expected_changelog D D0 steps)"
  have cr: "compute_revisions D (last (D0 # map step_content steps))
              (map asdict_operation (changelog m)) = Inr ?revs"
    using revisions_loop_expected [OF assms(2), of D0 steps "[]"]
    by (simp add: compute_revisions_def c length_expected_changelog rev_map)
  have len: "length (expected_changelog D D0 steps) = length steps"
    by (rule length_expected_changelog)
  have l: "length ?revs = length steps"
    by (simp add: expected_revisions_def len)
  show ?thesis
    using r f j c cr l expected_revisions_fields [OF len] by auto
qed

lemma scenario_revisions:
  "compute_revisions ref_dmp ''gctga''
     (map asdict_operation
       [\<lparr>operationCode = ''APPEND'', operationDetails = [(''insert_sequence'', ''tga'')],
          change = compute_difference ref_dmp ''atgc'' ''atgctga'',
          timestamp = ''t1'', tool = ''BioDesign tool''\<rparr>,
        \<lparr>operationCode = ''DELETE'', operationDetails = [],
          change = compute_difference ref_dmp ''atgctga'' ''gctga'',
          timestamp = ''t2'', tool = ''BioDesign tool''\<rparr>])
   = Inr [\<lparr>operationCode = ''DELETE'', operationDetails = [],
            change = compute_difference ref_dmp ''atgctga'' ''gctga'',
            timestamp = ''t2'', tool = ''BioDesign tool'', revision = 2, design = ''gctga''\<rparr>,
          \<lparr>operationCode = ''APPEND'', operationDetails = [(''insert_sequence'', ''tga'')],
            change = compute_difference ref_dmp ''atgc'' ''atgctga'',
            timestamp = ''t1'', tool = ''BioDesign tool'', revision = 1, design = ''atgctga''\<rparr>]"
  by (simp add: compute_revisions_def make_revision_def init_asdict
      apply_change_difference [OF ref_dmp_contract])

theorem C2_reconstruction_witness:
  "json_contract ref_stdlib \<and> dmp_contract ref_dmp \<and>
   (\<exists>files' t m revs.
     run_updates ref_stdlib ref_dmp
        (fst (create_metadata ref_stdlib ''id-1'' ''t0'' Map.empty None ''d'' ''John Smith'' []
                ''atgc''))
        (metadata_file_of ''d'') ''atgc''
        [(''t1'', ''atgctga'', ''APPEND'', [(''insert_sequence'', ''tga'')]),
         (''t2'', ''gctga'', ''DELETE'', [])] = Inr files'
     \<and> files' (metadata_file_of ''d'') = Some t \<and> json_loads ref_stdlib t = Inr m
     \<and> compute_revisions ref_dmp ''gctga'' (map asdict_operation (changelog m)) = Inr revs
     \<and> map revision revs = [2, 1]
     \<and> map design revs = [''gctga'', ''atgctga'']
     \<and> map operationCode revs = [''DELETE'', ''APPEND''])"
proof -
  let ?steps = "[(''t1'', ''atgctga'', ''APPEND'', [(''insert_sequence'', ''tga'')]),
                 (''t2'', ''gctga'', ''DELETE'', [])]"
  from C2_reconstruction [OF ref_json_contract ref_dmp_contract,
      of "''id-1''" "''t0''" Map.empty None "''d''" "''John Smith''" "[]" "''atgc''" ?steps]
  obtain files' t m revs where
    r: "run_updates ref_stdlib ref_dmp
        (fst (create_metadata ref_stdlib ''id-1'' ''t0'' Map.empty None ''d'' ''John Smith'' []
                ''atgc''))
        (metadata_file_of ''d'') ''atgc'' ?steps = Inr files'"
    and f: "files' (metadata_file_of ''d'') = Some t" and j: "json_loads ref_stdlib t = Inr m"
    and c: "changelog m = expected_changelog ref_dmp ''atgc'' ?steps"
    and cr: "compute_revisions ref_dmp (last (''atgc'' # map step_content ?steps))
               (map asdict_operation (changelog m)) = Inr revs"
    and n: "map revision revs = rev (map (\<lambda>i. int i + 1) [0..<length ?steps])"
    and d: "map design revs = rev (map step_content ?steps)"
    and t: "map BioDesignOperation.truncate revs = rev (changelog m)"
    by blast
  have cr': "compute_revisions ref_dmp ''gctga'' (map asdict_operation (changelog m)) = Inr revs"
    using cr by (simp add: step_content_def)
  have n': "map revision revs = [2, 1]"
    using n by (simp add: upt_rec)
  have d': "map design revs = [''gctga'', ''atgctga'']"
    using d by (simp add: step_content_def)
  have "map operationCode (map BioDesignOperation.truncate revs) = [''DELETE'', ''APPEND'']"
    unfolding t c by simp
  then have o': "map operationCode revs = [''DELETE'', ''APPEND'']"
    by (simp add: comp_def BioDesignOperation.truncate_def)
  show ?thesis
    apply (intro conjI ref_json_contract ref_dmp_contract)
    apply (rule exI [of _ files'], rule exI [of _ t], rule exI [of _ m], rule exI [of _ revs])
    apply (intro conjI r f j cr' n' d' o')
    done
qed

section \<open>Silent patch failures\<close>

lemma apply_change_flags:
  "apply_change (D\<lparr>patch_apply := \<lambda>ps t. (fst (patch_apply D ps t), flags ps t)\<rparr>) chg c
   = apply_change D chg c"
  by (simp add: apply_change_def split: sum.splits prod.splits)

lemma apply_change_total:
  assumes "chg = [] \<or> (\<exists>ps. patch_fromText D chg = Inr ps)"
  shows "\<exists>c'. apply_change D chg c = Inr c'"
  using assms by (auto simp: apply_change_def split: prod.splits)

lemma revisions_loop_total:
  assumes "\<forall>operation \<in> set operations.
             \<exists>op. operation = asdict_operation op
                  \<and> (change op = [] \<or> (\<exists>ps. patch_fromText D (change op) = Inr ps))"
  shows "\<exists>revs. revisions_loop D operations cr c acc = Inr revs
           \<and> length revs = length acc + length operations
           \<and> revisions_loop (D\<lparr>patch_apply := \<lambda>ps t. (fst (patch_apply D ps t), flags ps t)\<rparr>)
                operations cr c acc = Inr revs"
  using assms
proof (induction operations arbitrary: cr c acc)
  case Nil
  show ?case by simp
next
  case (Cons operation operations)
  from Cons.prems obtain op where o: "operation = asdict_operation op"
    and w: "change op = [] \<or> (\<exists>ps. patch_fromText D (change op) = Inr ps)"
    by auto
  from w obtain c' where a: "apply_change D (change op) c = Inr c'"
    using apply_change_total by blast
  from Cons.prems have
    "\<forall>operation \<in> set operations.
       \<exists>op. operation = asdict_operation op
            \<and> (change op = [] \<or> (\<exists>ps. patch_fromText D (change op) = Inr ps))"
    by simp
  from Cons.IH [OF this, of "cr - 1" c' "acc @ [make_revision cr c op]"]
  show ?case using a by (simp add: apply_change_flags o init_asdict)
qed

text \<open>
  C10 as stated fails: an entry with an empty change that lacks the other four keys makes the
  constructor of line 219 raise \<^verbatim>\<open>TypeError\<close>.
\<close>

theorem C10_counterexample:
  "get_change \<lparr>get_operationCode = None, get_operationDetails = None, get_change = Some [],
               get_timestamp = None, get_tool = None, other_keys = []\<rparr> = Some []
   \<and> compute_revisions ref_dmp ''atgc''
        [\<lparr>get_operationCode = None, get_operationDetails = None, get_change = Some [],
           get_timestamp = None, get_tool = None, other_keys = []\<rparr>] = Inl TypeError"
  by (simp add: compute_revisions_def BioDesignOperation_init_def)

text \<open>
  C10, amended. When every entry of the changelog is a dictionary with exactly the five keys
  of \<^verbatim>\<open>BioDesignOperation\<close> (the \<open>asdict_operation\<close> of an operation, by
  \<open>asdict_operation_iff\<close>) and its change is empty or well-formed patch text,
  \<open>compute_revisions\<close> returns one revision per entry, whether or not the patches apply
  cleanly; the success flags of \<open>patch_apply\<close> do not reach the result.
\<close>

theorem C10_silent_patch_failure:
  assumes "\<forall>operation \<in> set cl.
             \<exists>op. operation = asdict_operation op
                  \<and> (change op = [] \<or> (\<exists>ps. patch_fromText D (change op) = Inr ps))"
  shows "\<exists>revs. compute_revisions D content cl = Inr revs
           \<and> length revs = length cl
           \<and> compute_revisions
                (D\<lparr>patch_apply := \<lambda>ps t. (fst (patch_apply D ps t), flags ps t)\<rparr>) content cl
              = Inr revs"
proof -
  from assms have
    "\<forall>operation \<in> set (rev cl).
       \<exists>op. operation = asdict_operation op
            \<and> (change op = [] \<or> (\<exists>ps. patch_fromText D (change op) = Inr ps))"
    by simp
  from revisions_loop_total [OF this, of "int (length cl)" content "[]" flags]
  show ?thesis by (simp add: compute_revisions_def)
qed

theorem C10_silent_patch_failure_witness:
  "patch_fromText ref_dmp stale_change = Inr [(''tttttttttttttttttttttttt'', ''gggg'')]
   \<and> patch_apply ref_dmp [(''tttttttttttttttttttttttt'', ''gggg'')] ''atgc''
       = (''atgc'', [False])
   \<and> (\<exists>revs. compute_revisions ref_dmp ''atgc''
          (map asdict_operation
            [\<lparr>operationCode = ''CREATE'', operationDetails = [], change = [],
               timestamp = ''t1'', tool = ''BioDesign tool''\<rparr>,
             \<lparr>operationCode = ''APPEND'', operationDetails = [], change = stale_change,
               timestamp = ''t2'', tool = ''BioDesign tool''\<rparr>]) = Inr revs
        \<and> length revs = 2
        \<and> map revision revs = [2, 1]
        \<and> map design revs = [''atgc'', ''atgc'']
        \<and> map operationCode revs = [''APPEND'', ''CREATE''])"
proof -
  let ?o1 = "\<lparr>operationCode = ''CREATE'', operationDetails = [], change = [],
               timestamp = ''t1'', tool = ''BioDesign tool''\<rparr>"
  let ?o2 = "\<lparr>operationCode = ''APPEND'', operationDetails = [], change = stale_change,
               timestamp = ''t2'', tool = ''BioDesign tool''\<rparr>"
  let ?cl = "map asdict_operation [?o1, ?o2]"
  have p: "patch_fromText ref_dmp stale_change = Inr [(''tttttttttttttttttttttttt'', ''gggg'')]"
    by (simp add: ref_dmp_def stale_change_def ref_fromText_toText)
  have w1: "change ?o1 = [] \<or> (\<exists>ps. patch_fromText ref_dmp (change ?o1) = Inr ps)"
    by simp
  have w2: "change ?o2 = [] \<or> (\<exists>ps. patch_fromText ref_dmp (change ?o2) = Inr ps)"
    using p by simp
  have h: "\<forall>operation \<in> set ?cl.
             \<exists>op. operation = asdict_operation op
                  \<and> (change op = [] \<or> (\<exists>ps. patch_fromText ref_dmp (change op) = Inr ps))"
  proof
    fix operation
    assume "operation \<in> set ?cl"
    then have "operation = asdict_operation ?o1 \<or> operation = asdict_operation ?o2"
      by simp
    with w1 w2 show "\<exists>op. operation = asdict_operation op
        \<and> (change op = [] \<or> (\<exists>ps. patch_fromText ref_dmp (change op) = Inr ps))"
      by blast
  qed
  have a: "patch_apply ref_dmp [(''tttttttttttttttttttttttt'', ''gggg'')] ''atgc''
           = (''atgc'', [False])"
    by (simp add: ref_dmp_def)
  from C10_silent_patch_failure [OF h, of "''atgc''" "\<lambda>ps t. []"]
  obtain revs where r: "compute_revisions ref_dmp ''atgc'' ?cl = Inr revs"
    and l: "length revs = length ?cl" by blast
  have ne: "stale_change \<noteq> []"
    by (simp add: stale_change_def ref_patch_toText_def enc_str_not_Nil)
  have "compute_revisions ref_dmp ''atgc'' ?cl
        = Inr [make_revision 2 ''atgc'' ?o2, make_revision 1 ''atgc'' ?o1]"
    using p ne a by (simp add: compute_revisions_def apply_change_def init_asdict)
  with r have e: "revs = [make_revision 2 ''atgc'' ?o2, make_revision 1 ''atgc'' ?o1]"
    by simp
  have l': "length revs = 2" using l by simp
  have n: "map revision revs = [2, 1]"
    and d: "map design revs = [''atgc'', ''atgc'']"
    and o: "map operationCode revs = [''APPEND'', ''CREATE'']"
    by (simp_all add: e make_revision_def)
  show ?thesis
    apply (intro conjI p a)
    apply (rule exI [of _ revs])
    apply (intro conjI r l' n d o)
    done
qed

section \<open>Encryption round trip\<close>

lemma encrypt_string_token:
  assumes "crypto_contract C" and "key \<noteq> []" and "valid_aes_key (str_encode L key)"
    and "length iv = 16"
  shows "\<exists>c. aes_cbc_encrypt C (str_encode L key) iv (pkcs7_pad C (str_encode L S)) = Inr c
           \<and> aes_cbc_decrypt C (str_encode L key) iv c = Inr (pkcs7_pad C (str_encode L S))
           \<and> encrypt_string L C (Some key) iv S = Inr (b64encode L (iv @ c))"
proof -
  have "length (pkcs7_pad C (str_encode L S)) mod 16 = 0"
    using assms(1) by (simp add: crypto_contract_def)
  with assms obtain c where
    e: "aes_cbc_encrypt C (str_encode L key) iv (pkcs7_pad C (str_encode L S)) = Inr c"
    and d: "aes_cbc_decrypt C (str_encode L key) iv c = Inr (pkcs7_pad C (str_encode L S))"
    unfolding crypto_contract_def by blast
  have "encrypt_string L C (Some key) iv S = Inr (b64encode L (iv @ c))"
    using e assms(2) by (simp add: encrypt_string_def falsy_def Let_def)
  with e d show ?thesis by blast
qed

lemma encrypt_decrypt:
  assumes "codec_contract L" and "crypto_contract C" and "key \<noteq> []"
    and "valid_aes_key (str_encode L key)" and "length iv = 16"
  shows "\<exists>token. encrypt_string L C (Some key) iv S = Inr token
           \<and> decrypt_string L C (Some key) token = Inr S
           \<and> (\<exists>data. b64decode L token = Inr data \<and> take 16 data = iv)"
proof -
  from encrypt_string_token [OF assms(2-5), of S] obtain c where
    d: "aes_cbc_decrypt C (str_encode L key) iv c = Inr (pkcs7_pad C (str_encode L S))"
    and t: "encrypt_string L C (Some key) iv S = Inr (b64encode L (iv @ c))" by blast
  have b: "b64decode L (b64encode L (iv @ c)) = Inr (iv @ c)"
    and u: "bytes_decode L (str_encode L S) = Inr S"
    using assms(1) by (simp_all add: codec_contract_def)
  have p: "pkcs7_unpad C (pkcs7_pad C (str_encode L S)) = Inr (str_encode L S)"
    using assms(2) by (simp add: crypto_contract_def)
  have "decrypt_string L C (Some key) (b64encode L (iv @ c)) = Inr S"
    using assms(3,5) b d p u by (simp add: decrypt_string_def falsy_def Let_def)
  with t b assms(5) show ?thesis by auto
qed

text \<open>
  C5. With a configured key of valid AES length and a 16-byte IV, \<open>encrypt_string\<close> returns a
  token whose decoded form starts with the IV, and \<open>decrypt_string\<close> recovers the plaintext
  from it.
\<close>

theorem C5_crypto_roundtrip:
  assumes "codec_contract L" and "crypto_contract C" and "key \<noteq> []"
    and "valid_aes_key (str_encode L key)" and "length iv = 16"
  shows "\<exists>token. encrypt_string L C (Some key) iv S = Inr token
           \<and> decrypt_string L C (Some key) token = Inr S
           \<and> (\<exists>data. b64decode L token = Inr data \<and> take 16 data = iv)"
  using assms by (rule encrypt_decrypt)

lemma ref_key_valid: "valid_aes_key (str_encode ref_stdlib ''0123456789abcdef'')"
  by (simp add: valid_aes_key_def ref_stdlib_def)

theorem C5_crypto_roundtrip_witness:
  "codec_contract ref_stdlib \<and> crypto_contract ref_cryptolib
   \<and> valid_aes_key (str_encode ref_stdlib ''0123456789abcdef'')
   \<and> (\<exists>token. encrypt_string ref_stdlib ref_cryptolib (Some ''0123456789abcdef'')
                   (replicate 16 7) ''atgc'' = Inr token
        \<and> decrypt_string ref_stdlib ref_cryptolib (Some ''0123456789abcdef'') token
            = Inr ''atgc'')"
  using C5_crypto_roundtrip [OF ref_codec_contract ref_crypto_contract _ ref_key_valid,
      of "replicate 16 7" "''atgc''"]
    ref_codec_contract ref_crypto_contract ref_key_valid
  by auto

lemma encrypt_string_shape:
  assumes "encrypt_string L C k iv S = Inr t"
  shows "\<exists>c. t = b64encode L (iv @ c)"
  using assms
  by (auto simp: encrypt_string_def Let_def split: if_splits sum.splits)

text \<open>
  C6. Two encryptions of the same plaintext that draw distinct 16-byte IVs return distinct
  tokens, since each token decodes to bytes that start with its IV.
\<close>

theorem C6_token_non_repetition:
  assumes "codec_contract L" and "length iv1 = 16" and "length iv2 = 16" and "iv1 \<noteq> iv2"
    and "encrypt_string L C k iv1 S = Inr t1" and "encrypt_string L C k iv2 S = Inr t2"
  shows "t1 \<noteq> t2
         \<and> (\<exists>d1 d2. b64decode L t1 = Inr d1 \<and> take 16 d1 = iv1
                    \<and> b64decode L t2 = Inr d2 \<and> take 16 d2 = iv2)"
proof -
  from encrypt_string_shape [OF assms(5)] obtain c1 where t1: "t1 = b64encode L (iv1 @ c1)" ..
  from encrypt_string_shape [OF assms(6)] obtain c2 where t2: "t2 = b64encode L (iv2 @ c2)" ..
  have b1: "b64decode L t1 = Inr (iv1 @ c1)" and b2: "b64decode L t2 = Inr (iv2 @ c2)"
    using assms(1) by (simp_all add: codec_contract_def t1 t2)
  have "t1 \<noteq> t2"
  proof
    assume "t1 = t2"
    with b1 b2 have "iv1 @ c1 = iv2 @ c2" by simp
    with assms(2,3) have "iv1 = iv2" by simp
    with assms(4) show False by simp
  qed
  with b1 b2 assms(2,3) show ?thesis by simp
qed

theorem C6_token_non_repetition_witness:
  "codec_contract ref_stdlib
   \<and> (replicate 16 7 :: bytes) \<noteq> replicate 16 9
   \<and> (\<exists>t1 t2. encrypt_string ref_stdlib ref_cryptolib (Some ''0123456789abcdef'')
                    (replicate 16 7) ''atgc'' = Inr t1
        \<and> encrypt_string ref_stdlib ref_cryptolib (Some ''0123456789abcdef'')
                    (replicate 16 9) ''atgc'' = Inr t2
        \<and> t1 \<noteq> t2)"
proof -
  let ?k = "Some ''0123456789abcdef''"
  have ne: "(replicate 16 7 :: bytes) \<noteq> replicate 16 9"
    by (simp add: replicate_eq_replicate)
  from encrypt_string_token [OF ref_crypto_contract _ ref_key_valid, of "replicate 16 7" "''atgc''"]
  obtain t1 where e1: "encrypt_string ref_stdlib ref_cryptolib ?k (replicate 16 7) ''atgc'' = Inr t1"
    by auto
  from encrypt_string_token [OF ref_crypto_contract _ ref_key_valid, of "replicate 16 9" "''atgc''"]
  obtain t2 where e2: "encrypt_string ref_stdlib ref_cryptolib ?k (replicate 16 9) ''atgc'' = Inr t2"
    by auto
  from C6_token_non_repetition [OF ref_codec_contract _ _ ne e1 e2]
  have "t1 \<noteq> t2" by simp
  with ne e1 e2 ref_codec_contract show ?thesis by blast
qed

section \<open>The frame of an update and storage failures\<close>

text \<open>
  C8. A successful update keeps \<open>id\<close>, \<open>parentMetadataId\<close>, \<open>designName\<close>, \<open>author\<close> and
  \<open>description\<close>, appends exactly one operation behind the existing changelog, changes
  nothing else but \<open>designChecksum\<close> and \<open>lastUpdated\<close>, and writes only the record's file;
  the same call again appends the same operation once more.
\<close>

theorem C8_append_frame:
  assumes "json_contract L" and "files path = Some t" and "json_loads L t = Inr m"
  shows "\<exists>files1 m1 files2 m2.
     update_metadata_with_operation L now1 files path content code details chg
       = Inr (files1, m1)
     \<and> id m1 = id m \<and> parentMetadataId m1 = parentMetadataId m
     \<and> designName m1 = designName m \<and> author m1 = author m
     \<and> description m1 = description m
     \<and> changelog m1 = changelog m @
           [\<lparr>operationCode = code, operationDetails = details, change = chg,
              timestamp = now1, tool = ''BioDesign tool''\<rparr>]
     \<and> length (changelog m1) = length (changelog m) + 1
     \<and> take (length (changelog m)) (changelog m1) = changelog m
     \<and> m1 = m\<lparr>lastUpdated := now1, designChecksum := calculate_checksum L content,
                changelog := changelog m1\<rparr>
     \<and> files1 = files(path \<mapsto> json_dumps L m1)
     \<and> update_metadata_with_operation L now2 files1 path content code details chg
           = Inr (files2, m2)
     \<and> changelog m2 = changelog m @
           [\<lparr>operationCode = code, operationDetails = details, change = chg,
              timestamp = now1, tool = ''BioDesign tool''\<rparr>,
            \<lparr>operationCode = code, operationDetails = details, change = chg,
              timestamp = now2, tool = ''BioDesign tool''\<rparr>]"
proof -
  let ?op1 = "\<lparr>operationCode = code, operationDetails = details, change = chg,
               timestamp = now1, tool = ''BioDesign tool''\<rparr>"
  let ?op2 = "\<lparr>operationCode = code, operationDetails = details, change = chg,
               timestamp = now2, tool = ''BioDesign tool''\<rparr>"
  let ?m1 = "m\<lparr>lastUpdated := now1, designChecksum := calculate_checksum L content,
               changelog := changelog m @ [?op1]\<rparr>"
  let ?f1 = "files(path \<mapsto> json_dumps L ?m1)"
  let ?m2 = "?m1\<lparr>lastUpdated := now2, designChecksum := calculate_checksum L content,
               changelog := changelog ?m1 @ [?op2]\<rparr>"
  let ?f2 = "?f1(path \<mapsto> json_dumps L ?m2)"
  have u1: "update_metadata_with_operation L now1 files path content code details chg
            = Inr (?f1, ?m1)"
    using assms(2,3) by (rule update_success)
  have f1: "?f1 path = Some (json_dumps L ?m1)" by simp
  have j1: "json_loads L (json_dumps L ?m1) = Inr ?m1"
    using assms(1) by (simp add: json_contract_def)
  have u2: "update_metadata_with_operation L now2 ?f1 path content code details chg
            = Inr (?f2, ?m2)"
    using f1 j1 by (rule update_success)
  show ?thesis
    apply (rule exI [of _ ?f1], rule exI [of _ ?m1], rule exI [of _ ?f2], rule exI [of _ ?m2])
    apply (intro conjI u1 u2)
    apply simp_all
    done
qed

theorem C8_append_frame_witness:
  "json_contract ref_stdlib
   \<and> (\<exists>files1 m1 files2 m2.
       update_metadata_with_operation ref_stdlib ''t1''
          (fst (create_metadata ref_stdlib ''id-1'' ''t0'' Map.empty None ''d'' ''John Smith''
                  [] ''atgc''))
          (metadata_file_of ''d'') ''atgctga'' ''APPEND'' [] [] = Inr (files1, m1)
       \<and> id m1 = ''id-1'' \<and> author m1 = ''John Smith'' \<and> length (changelog m1) = 1
       \<and> update_metadata_with_operation ref_stdlib ''t2'' files1
            (metadata_file_of ''d'') ''atgctga'' ''APPEND'' [] [] = Inr (files2, m2)
       \<and> map operationCode (changelog m2) = [''APPEND'', ''APPEND''])"
proof -
  let ?c = "create_metadata ref_stdlib ''id-1'' ''t0'' Map.empty None ''d'' ''John Smith'' [] ''atgc''"
  have f: "fst ?c (metadata_file_of ''d'') = Some (json_dumps ref_stdlib (snd ?c))"
    by (simp add: create_metadata_def Let_def)
  have j: "json_loads ref_stdlib (json_dumps ref_stdlib (snd ?c)) = Inr (snd ?c)"
    using ref_json_contract by (simp add: json_contract_def)
  have "\<exists>files1 m1 files2 m2.
     update_metadata_with_operation ref_stdlib ''t1'' (fst ?c) (metadata_file_of ''d'')
        ''atgctga'' ''APPEND'' [] [] = Inr (files1, m1)
     \<and> id m1 = id (snd ?c) \<and> parentMetadataId m1 = parentMetadataId (snd ?c)
     \<and> designName m1 = designName (snd ?c) \<and> author m1 = author (snd ?c)
     \<and> description m1 = description (snd ?c)
     \<and> changelog m1 = changelog (snd ?c) @
           [\<lparr>operationCode = ''APPEND'', operationDetails = [], change = [],
              timestamp = ''t1'', tool = ''BioDesign tool''\<rparr>]
     \<and> length (changelog m1) = length (changelog (snd ?c)) + 1
     \<and> take (length (changelog (snd ?c))) (changelog m1) = changelog (snd ?c)
     \<and> m1 = (snd ?c)\<lparr>lastUpdated := ''t1'',
                designChecksum := calculate_checksum ref_stdlib ''atgctga'',
                changelog := changelog m1\<rparr>
     \<and> files1 = (fst ?c)(metadata_file_of ''d'' \<mapsto> json_dumps ref_stdlib m1)
     \<and> update_metadata_with_operation ref_stdlib ''t2'' files1 (metadata_file_of ''d'')
           ''atgctga'' ''APPEND'' [] [] = Inr (files2, m2)
     \<and> changelog m2 = changelog (snd ?c) @
           [\<lparr>operationCode = ''APPEND'', operationDetails = [], change = [],
              timestamp = ''t1'', tool = ''BioDesign tool''\<rparr>,
            \<lparr>operationCode = ''APPEND'', operationDetails = [], change = [],
              timestamp = ''t2'', tool = ''BioDesign tool''\<rparr>]"
    using ref_json_contract f j by (rule C8_append_frame)
  then obtain files1 m1 files2 m2 where
    u1: "update_metadata_with_operation ref_stdlib ''t1'' (fst ?c) (metadata_file_of ''d'')
        ''atgctga'' ''APPEND'' [] [] = Inr (files1, m1)"
    and i: "id m1 = id (snd ?c)" and a: "author m1 = author (snd ?c)"
    and l: "length (changelog m1) = length (changelog (snd ?c)) + 1"
    and u2: "update_metadata_with_operation ref_stdlib ''t2'' files1 (metadata_file_of ''d'')
           ''atgctga'' ''APPEND'' [] [] = Inr (files2, m2)"
    and c2: "changelog m2 = changelog (snd ?c) @
           [\<lparr>operationCode = ''APPEND'', operationDetails = [], change = [],
              timestamp = ''t1'', tool = ''BioDesign tool''\<rparr>,
            \<lparr>operationCode = ''APPEND'', operationDetails = [], change = [],
              timestamp = ''t2'', tool = ''BioDesign tool''\<rparr>]"
    by blast
  have i': "id m1 = ''id-1''" and a': "author m1 = ''John Smith''"
    and l': "length (changelog m1) = 1"
    using i a l by (simp_all add: create_metadata_def Let_def)
  have c': "map operationCode (changelog m2) = [''APPEND'', ''APPEND'']"
    unfolding c2 by (simp add: create_metadata_def Let_def)
  show ?thesis
    apply (rule conjI [OF ref_json_contract])
    apply (rule exI [of _ files1], rule exI [of _ m1], rule exI [of _ files2], rule exI [of _ m2])
    apply (intro conjI u1 i' a' l' u2 c')
    done
qed

text \<open>
  C7 as stated fails: an update on a path that does not exist raises \<^verbatim>\<open>FileNotFoundError\<close>,
  which is not a \<^verbatim>\<open>ValueError\<close>.
\<close>

theorem C7_counterexample:
  "update_metadata_with_operation ref_stdlib ''t1'' Map.empty ''library/metadata_d.json''
      ''atgctga'' ''APPEND'' [] [] = Inl FileNotFoundError
   \<and> \<not> is_ValueError FileNotFoundError"
  by (simp add: update_metadata_with_operation_def)

text \<open>
  C7, amended. An update on a path that does not exist raises \<^verbatim>\<open>FileNotFoundError\<close>, and the
  validation of a CREATE whose design file exists raises \<^verbatim>\<open>ValueError\<close>; both results are
  errors, so no file has been written.
\<close>

theorem C7_storage_failures:
  "(files path = None \<longrightarrow>
      update_metadata_with_operation L now files path content code details chg
        = Inl FileNotFoundError)
   \<and> (args ''file_name'' = Some name \<and> name \<noteq> [] \<and> args ''sequence'' = Some sq \<and> sq \<noteq> []
        \<and> files (''library/'' @ name @ ''.gb'') \<noteq> None \<longrightarrow>
      validate_and_set_args files self args = Inl ValueError \<and> is_ValueError ValueError)"
  by (simp add: update_metadata_with_operation_def validate_and_set_args_def Let_def falsy_def)

theorem C7_storage_failures_witness:
  "update_metadata_with_operation ref_stdlib ''t1'' Map.empty ''library/metadata_d.json''
      ''atgctga'' ''APPEND'' [] [] = Inl FileNotFoundError
   \<and> validate_and_set_args [''library/d.gb'' \<mapsto> ''LOCUS'']
        \<lparr>file_name = None, sequence = None, source = None, metadata_parent_id = None\<rparr>
        [''file_name'' \<mapsto> ''d'', ''sequence'' \<mapsto> ''atgc''] = Inl ValueError"
  using C7_storage_failures [of Map.empty "''library/metadata_d.json''" ref_stdlib "''t1''"
      "''atgctga''" "''APPEND''" "[]" "[]" "[''file_name'' \<mapsto> ''d'', ''sequence'' \<mapsto> ''atgc'']"
      "''d''" "''atgc''"
      "\<lparr>file_name = None, sequence = None, source = None, metadata_parent_id = None\<rparr>"]
    C7_storage_failures [of "[''library/d.gb'' \<mapsto> ''LOCUS'']" "''library/metadata_d.json''"
      ref_stdlib "''t1''"
      "''atgctga''" "''APPEND''" "[]" "[]" "[''file_name'' \<mapsto> ''d'', ''sequence'' \<mapsto> ''atgc'']"
      "''d''" "''atgc''"
      "\<lparr>file_name = None, sequence = None, source = None, metadata_parent_id = None\<rparr>"]
  by simp


section \<open>Validation at the provider\<close>

lemma match_result:
  assumes "files metadata_file = Some token" and "decrypt_string L C k token = Inr t"
    and "json_loads L t = Inr m"
    and "(endswith design_file ''.pdb'' \<and> files design_file = Some content)
         \<or> (\<not> endswith design_file ''.pdb''
             \<and> (\<exists>gb. files design_file = Some gb \<and> genbank_seq gb = Inr content))"
  shows "design_and_metadata_match L C genbank_seq k files design_file metadata_file
         = Inr (designChecksum m = calculate_checksum L content)"
  using assms by (auto simp: design_and_metadata_match_def Let_def)

text \<open>
  C4. When the metadata file decrypts to a record and the design content can be read,
  \<open>design_and_metadata_match\<close> returns whether the stored checksum equals the checksum of
  the content, without raising; on a mismatch \<open>place_order\<close> answers with the error flag and
  a message.
\<close>

theorem C4_mismatch_rejection:
  assumes "files metadata_file = Some token" and "decrypt_string L C k token = Inr t"
    and "json_loads L t = Inr m"
    and "(endswith design_file ''.pdb'' \<and> files design_file = Some content)
         \<or> (\<not> endswith design_file ''.pdb''
             \<and> (\<exists>gb. files design_file = Some gb \<and> genbank_seq gb = Inr content))"
  shows "design_and_metadata_match L C genbank_seq k files design_file metadata_file
           = Inr (designChecksum m = calculate_checksum L content)
         \<and> (designChecksum m \<noteq> calculate_checksum L content
              \<and> design_file = ''exported/'' @ df \<and> df \<noteq> []
              \<and> metadata_file = ''exported/'' @ mf \<and> mf \<noteq> [] \<longrightarrow>
             place_order L C genbank_seq k files
               \<lparr>designFilePath = Some df, metadataFilePath = Some mf\<rparr>
             = Inr mismatch_response)"
proof -
  have r: "design_and_metadata_match L C genbank_seq k files design_file metadata_file
           = Inr (designChecksum m = calculate_checksum L content)"
    using assms by (rule match_result)
  then show ?thesis
    by (auto simp: place_order_def Let_def falsy_def mismatch_response_def)
qed


lemma sample_token_decrypts:
  "decrypt_string ref_stdlib ref_cryptolib (Some ''0123456789abcdef'') sample_token
   = Inr (json_dumps ref_stdlib sample_metadata)"
  using encrypt_decrypt [OF ref_codec_contract ref_crypto_contract _ ref_key_valid,
      of "replicate 16 7" "json_dumps ref_stdlib sample_metadata"]
  by (auto simp: sample_token_def)

lemma sample_checksums_differ:
  "calculate_checksum ref_stdlib ''atgc'' \<noteq> calculate_checksum ref_stdlib ''ggcc''"
  by code_simp

theorem C4_mismatch_rejection_witness:
  "design_and_metadata_match ref_stdlib ref_cryptolib ref_genbank_seq
      (Some ''0123456789abcdef'')
      [''exported/d.enc'' \<mapsto> sample_token, ''exported/d.pdb'' \<mapsto> ''ggcc'']
      ''exported/d.pdb'' ''exported/d.enc'' = Inr False
   \<and> place_order ref_stdlib ref_cryptolib ref_genbank_seq (Some ''0123456789abcdef'')
        [''exported/d.enc'' \<mapsto> sample_token, ''exported/d.pdb'' \<mapsto> ''ggcc'']
        \<lparr>designFilePath = Some ''d.pdb'', metadataFilePath = Some ''d.enc''\<rparr>
      = Inr mismatch_response
   \<and> design_and_metadata_match ref_stdlib ref_cryptolib ref_genbank_seq
      (Some ''0123456789abcdef'')
      [''exported/d.enc'' \<mapsto> sample_token, ''exported/d.gb'' \<mapsto> ''ATGC'']
      ''exported/d.gb'' ''exported/d.enc'' = Inr True"
proof -
  let ?files = "[''exported/d.enc'' \<mapsto> sample_token, ''exported/d.pdb'' \<mapsto> ''ggcc'']"
  let ?files2 = "[''exported/d.enc'' \<mapsto> sample_token, ''exported/d.gb'' \<mapsto> ''ATGC'']"
  have f: "?files ''exported/d.enc'' = Some sample_token" by simp
  have f2: "?files2 ''exported/d.enc'' = Some sample_token" by simp
  have j: "json_loads ref_stdlib (json_dumps ref_stdlib sample_metadata) = Inr sample_metadata"
    using ref_json_contract by (simp add: json_contract_def)
  have d: "(endswith ''exported/d.pdb'' ''.pdb'' \<and> ?files ''exported/d.pdb'' = Some ''ggcc'')
         \<or> (\<not> endswith ''exported/d.pdb'' ''.pdb''
             \<and> (\<exists>gb. ?files ''exported/d.pdb'' = Some gb \<and> ref_genbank_seq gb = Inr ''ggcc''))"
    by (simp add: endswith_def)
  have d2: "(endswith ''exported/d.gb'' ''.pdb'' \<and> ?files2 ''exported/d.gb'' = Some ''ATGC'')
         \<or> (\<not> endswith ''exported/d.gb'' ''.pdb''
             \<and> (\<exists>gb. ?files2 ''exported/d.gb'' = Some gb \<and> ref_genbank_seq gb = Inr ''ATGC''))"
    by (simp add: endswith_def ref_genbank_seq_def)
  have cs: "designChecksum sample_metadata \<noteq> calculate_checksum ref_stdlib ''ggcc''"
    using sample_checksums_differ by (simp add: sample_metadata_def)
  have cs2: "designChecksum sample_metadata = calculate_checksum ref_stdlib ''ATGC''"
  proof -
    have "lower ''ATGC'' = ''atgc''" and "lower ''atgc'' = ''atgc''" by code_simp+
    then show ?thesis by (simp add: sample_metadata_def calculate_checksum_def)
  qed
  note r1 = C4_mismatch_rejection [OF f sample_token_decrypts j d, of "''d.pdb''" "''d.enc''"]
  note r2 = C4_mismatch_rejection [OF f2 sample_token_decrypts j d2, of "''d.gb''" "''d.enc''"]
  have a1: "design_and_metadata_match ref_stdlib ref_cryptolib ref_genbank_seq
      (Some ''0123456789abcdef'') ?files ''exported/d.pdb'' ''exported/d.enc'' = Inr False"
    using r1 [THEN conjunct1] by (simp only: cs)
  have a2: "place_order ref_stdlib ref_cryptolib ref_genbank_seq (Some ''0123456789abcdef'')
        ?files \<lparr>designFilePath = Some ''d.pdb'', metadataFilePath = Some ''d.enc''\<rparr>
      = Inr mismatch_response"
    by (rule r1 [THEN conjunct2, THEN mp]) (simp add: cs)
  have a3: "design_and_metadata_match ref_stdlib ref_cryptolib ref_genbank_seq
      (Some ''0123456789abcdef'') ?files2 ''exported/d.gb'' ''exported/d.enc'' = Inr True"
    using r2 [THEN conjunct1] by (simp only: cs2 simp_thms)
  show ?thesis by (intro conjI a1 a2 a3)
qed

end
